theory Spec2Isabelle
  imports Complex_Main
begin

section \<open>Python floats and errors\<close>

text \<open>
  A Python float (and the value of a zero-dimensional torch tensor) is either not-a-number,
  one of the two infinities, or a finite number.  Finite numbers are idealised as reals:
  rounding, overflow to infinity and the sign of zero are not represented.  What is
  represented is everything the control flow of the repository depends on: the value
  \<open>math.inf\<close>, the comparison \<open><\<close> (false whenever an operand is not-a-number) and the
  propagation of not-a-number and infinities through \<open>+\<close>, \<open>*\<close> and \<open>/\<close>.
\<close>

datatype pyfloat = NaN | NInf | Fin real | PInf

datatype py_error = ZeroDivisionError | IndexError | ValueError | RuntimeError

text \<open>The comparison \<open>a < b\<close> of two floats.\<close>

fun flt :: "pyfloat \<Rightarrow> pyfloat \<Rightarrow> bool" where
  "flt NaN b = False"
| "flt a NaN = False"
| "flt a NInf = False"
| "flt NInf b = True"
| "flt PInf b = False"
| "flt (Fin a) PInf = True"
| "flt (Fin a) (Fin b) = (a < b)"

text \<open>\<open>a <= b\<close> on floats; used in statements only.\<close>

definition fle :: "pyfloat \<Rightarrow> pyfloat \<Rightarrow> bool" where
  "fle a b = (a \<noteq> NaN \<and> b \<noteq> NaN \<and> (flt a b \<or> a = b))"

text \<open>The sum \<open>a + b\<close>.\<close>

fun fadd :: "pyfloat \<Rightarrow> pyfloat \<Rightarrow> pyfloat" where
  "fadd NaN b = NaN"
| "fadd a NaN = NaN"
| "fadd PInf NInf = NaN"
| "fadd NInf PInf = NaN"
| "fadd PInf b = PInf"
| "fadd a PInf = PInf"
| "fadd NInf b = NInf"
| "fadd a NInf = NInf"
| "fadd (Fin a) (Fin b) = Fin (a + b)"

text \<open>The product \<open>a * b\<close>.\<close>

fun fmul :: "pyfloat \<Rightarrow> pyfloat \<Rightarrow> pyfloat" where
  "fmul NaN b = NaN"
| "fmul a NaN = NaN"
| "fmul (Fin a) (Fin b) = Fin (a * b)"
| "fmul (Fin a) PInf = (if a = 0 then NaN else if 0 < a then PInf else NInf)"
| "fmul (Fin a) NInf = (if a = 0 then NaN else if 0 < a then NInf else PInf)"
| "fmul PInf (Fin b) = (if b = 0 then NaN else if 0 < b then PInf else NInf)"
| "fmul NInf (Fin b) = (if b = 0 then NaN else if 0 < b then NInf else PInf)"
| "fmul PInf PInf = PInf"
| "fmul NInf NInf = PInf"
| "fmul PInf NInf = NInf"
| "fmul NInf PInf = NInf"

text \<open>
  The quotient of a float by an integer as torch computes it on tensors: dividing by zero
  raises nothing, it gives not-a-number for \<open>0 / 0\<close> and an infinity otherwise.
\<close>

fun fdiv :: "pyfloat \<Rightarrow> int \<Rightarrow> pyfloat" where
  "fdiv NaN n = NaN"
| "fdiv PInf n = (if n < 0 then NInf else PInf)"
| "fdiv NInf n = (if n < 0 then PInf else NInf)"
| "fdiv (Fin a) n =
     (if n = 0 then (if a = 0 then NaN else if 0 < a then PInf else NInf)
      else Fin (a / real_of_int n))"

text \<open>The quotient \<open>a / n\<close> of Python numbers: a zero divisor raises \<open>ZeroDivisionError\<close>.\<close>

definition py_truediv :: "pyfloat \<Rightarrow> int \<Rightarrow> py_error + pyfloat" where
  "py_truediv a n = (if n = 0 then Inl ZeroDivisionError else Inr (fdiv a n))"

section \<open>tools/trainer.py: MotionTrainer\<close>

text \<open>
  The network, its optimizer and the criterion belong to the framework.  The type \<open>'m\<close>
  stands for the state of the model together with its optimizer, \<open>'b\<close> for a batch
  \<open>(features, labels)\<close>.  \<open>batch_loss\<close> is \<open>criterion(model(features), labels).item()\<close>
  in the given mode and \<open>optimizer_step\<close> is the effect of \<open>zero_grad\<close>, \<open>backward\<close> and
  \<open>step\<close> on one batch.
\<close>

datatype mode = Training | Evaluation

record ('m, 'b) framework =
  batch_loss :: "mode \<Rightarrow> 'm \<Rightarrow> 'b \<Rightarrow> pyfloat"
  optimizer_step :: "'m \<Rightarrow> 'b \<Rightarrow> 'm"

text \<open>
  One entry of the history is written per completed pass of the loop body of \<open>train\<close>:
  the epoch index, the value returned by \<open>test_epoch\<close>, the state dict handed to
  \<open>torch.save\<close> in that pass (\<open>None\<close> when \<open>torch.save\<close> was not called) and the
  two attributes as they are at the end of the pass.
\<close>

record 'm entry =
  epoch :: int
  test_loss :: pyfloat
  saved :: "'m option"
  best_loss_after :: pyfloat
  best_epoch_after :: int

record ('m, 'b) trainer =
  model :: 'm
  train_iterator :: "'b list"
  test_iterator :: "'b list"
  best_loss :: pyfloat
  best_epoch :: int
  history :: "'m entry list"

definition MotionTrainer_init :: "'b list \<Rightarrow> 'b list \<Rightarrow> 'm \<Rightarrow> ('m, 'b) trainer" where
  "MotionTrainer_init train_it test_it m =
     \<lparr>model = m, train_iterator = train_it, test_iterator = test_it,
      best_loss = PInf, best_epoch = 0, history = []\<rparr>"

text \<open>
  \<open>train_epoch\<close>: the loop over the training batches.  The accumulator is the model, the
  running \<open>total_loss\<close>, the number of batches seen and the averages printed so far.
\<close>

definition train_batch ::
  "('m, 'b) framework \<Rightarrow> 'm \<times> pyfloat \<times> int \<times> pyfloat list \<Rightarrow> 'b \<Rightarrow> 'm \<times> pyfloat \<times> int \<times> pyfloat list" where
  "train_batch fw acc b =
     (case acc of (m, total_loss, batch_idx, printed) \<Rightarrow>
        let loss = batch_loss fw Training m b;
            total_loss' = fadd total_loss loss;
            m' = optimizer_step fw m b
        in (m', total_loss', batch_idx + 1, printed @ [fdiv total_loss' (batch_idx + 1)]))"

definition train_epoch :: "('m, 'b) framework \<Rightarrow> ('m, 'b) trainer \<Rightarrow> ('m, 'b) trainer \<times> pyfloat list" where
  "train_epoch fw t =
     (case foldl (train_batch fw) (model t, Fin 0, 0, []) (train_iterator t) of
        (m', total_loss, n, printed) \<Rightarrow> (t\<lparr>model := m'\<rparr>, printed))"

text \<open>
  \<open>test_epoch\<close>: the sum of the losses of the test batches, divided by
  \<open>len(self.test_iterator)\<close>.  With no test batch the division is \<open>0 / 0\<close> and raises.
\<close>

definition test_epoch :: "('m, 'b) framework \<Rightarrow> ('m, 'b) trainer \<Rightarrow> py_error + pyfloat" where
  "test_epoch fw t =
     (let total_loss = foldl fadd (Fin 0) (map (batch_loss fw Evaluation (model t)) (test_iterator t))
      in py_truediv total_loss (int (length (test_iterator t))))"

text \<open>
  The body of the loop of \<open>train\<close> for the epochs still to run, with the \<open>break\<close>.
  The lines that \<open>train\<close> prints are not represented; what each pass did is in the
  entry it appends to the history.
\<close>

fun train_loop ::
  "('m, 'b) framework \<Rightarrow> int \<Rightarrow> int list \<Rightarrow> ('m, 'b) trainer \<Rightarrow> py_error + ('m, 'b) trainer" where
  "train_loop fw patience [] t = Inr t"
| "train_loop fw patience (ep # rest) t =
     (let t1 = fst (train_epoch fw t) in
      case test_epoch fw t1 of
        Inl err \<Rightarrow> Inl err
      | Inr loss \<Rightarrow>
          let improved = flt loss (best_loss t1);
              t2 = (if improved then t1\<lparr>best_loss := loss, best_epoch := ep\<rparr> else t1);
              t3 = t2\<lparr>history := history t2 @
                     [\<lparr>epoch = ep, test_loss = loss,
                       saved = (if improved then Some (model t1) else None),
                       best_loss_after = best_loss t2, best_epoch_after = best_epoch t2\<rparr>]\<rparr>
          in if ep - best_epoch t3 > patience then Inr t3
             else train_loop fw patience rest t3)"

text \<open>\<open>range(num_epoches)\<close> is empty for a negative argument.\<close>

definition py_range :: "int \<Rightarrow> int list" where
  "py_range n = map int [0 ..< nat n]"

definition train ::
  "('m, 'b) framework \<Rightarrow> ('m, 'b) trainer \<Rightarrow> int \<Rightarrow> int \<Rightarrow> py_error + ('m, 'b) trainer" where
  "train fw t num_epoches patience = train_loop fw patience (py_range num_epoches) t"

subsection \<open>Notions used to state the properties of \<open>train\<close>\<close>

text \<open>
  The model after one call of \<open>train_epoch\<close>: the optimizer steps over the training
  batches, in order.
\<close>

definition fit :: "('m, 'b) framework \<Rightarrow> 'b list \<Rightarrow> 'm \<Rightarrow> 'm" where
  "fit fw trn m = foldl (optimizer_step fw) m trn"

text \<open>The model with which the test of epoch \<open>i\<close> is run: after \<open>i + 1\<close> training epochs.\<close>

definition model_at :: "('m, 'b) framework \<Rightarrow> 'b list \<Rightarrow> 'm \<Rightarrow> nat \<Rightarrow> 'm" where
  "model_at fw trn m i = ((fit fw trn) ^^ (Suc i)) m"

text \<open>
  The test loss of a model as the properties word it: the sum of the losses of the test
  batches divided by the number of test batches.
\<close>

definition mean_loss :: "('m, 'b) framework \<Rightarrow> 'b list \<Rightarrow> 'm \<Rightarrow> pyfloat" where
  "mean_loss fw tst m =
     fdiv (foldl fadd (Fin 0) (map (batch_loss fw Evaluation m) tst)) (int (length tst))"

text \<open>
  \<open>trace_ok\<close> relates the entries that a run of the loop appends to the history to the
  epochs \<open>es\<close> it was given, the model \<open>m\<close> and the attributes \<open>bl\<close> (best loss) and
  \<open>be\<close> (best epoch) it started with.  It is the bridge between \<open>train_loop\<close> and the
  statements about positions in the history.
\<close>

fun trace_ok ::
  "('m, 'b) framework \<Rightarrow> 'b list \<Rightarrow> 'b list \<Rightarrow> int \<Rightarrow> int list \<Rightarrow> 'm \<Rightarrow> pyfloat \<Rightarrow> int \<Rightarrow> 'm entry list \<Rightarrow> bool" where
  "trace_ok fw trn tst p [] m bl be ens = (ens = [])"
| "trace_ok fw trn tst p (ep # rest) m bl be [] = False"
| "trace_ok fw trn tst p (ep # rest) m bl be (en # ens) =
     (epoch en = ep \<and> test_loss en = mean_loss fw tst (fit fw trn m) \<and>
      saved en = (if flt (test_loss en) bl then Some (fit fw trn m) else None) \<and>
      best_loss_after en = (if flt (test_loss en) bl then test_loss en else bl) \<and>
      best_epoch_after en = (if flt (test_loss en) bl then ep else be) \<and>
      (if ep - best_epoch_after en > p then ens = []
       else trace_ok fw trn tst p rest (fit fw trn m) (best_loss_after en) (best_epoch_after en) ens))"

subsection \<open>Example runs\<close>

text \<open>
  A small framework instance: the model is a number that every optimizer step increases
  by one, and the loss of a batch \<open>b\<close> is \<open>b + |m - 2|\<close>.  With one training batch and
  the test batches \<open>1\<close> and \<open>3\<close> the test losses of the epochs are \<open>3, 2, 3, 4, ...\<close>.
\<close>

definition toy_framework :: "(real, real) framework" where
  "toy_framework = \<lparr>batch_loss = (\<lambda>md m b. Fin (b + \<bar>m - 2\<bar>)), optimizer_step = (\<lambda>m b. m + 1)\<rparr>"

definition toy_trainer :: "(real, real) trainer" where
  "toy_trainer = MotionTrainer_init [0] [1, 3] 0"

text \<open>The trainer after \<open>train(10, 1)\<close>: the run stops after epoch 3.\<close>

definition toy_result :: "(real, real) trainer" where
  "toy_result =
     \<lparr>model = 4, train_iterator = [0], test_iterator = [1, 3], best_loss = Fin 2, best_epoch = 1,
      history =
        [\<lparr>epoch = 0, test_loss = Fin 3, saved = Some 1, best_loss_after = Fin 3, best_epoch_after = 0\<rparr>,
         \<lparr>epoch = 1, test_loss = Fin 2, saved = Some 2, best_loss_after = Fin 2, best_epoch_after = 1\<rparr>,
         \<lparr>epoch = 2, test_loss = Fin 3, saved = None, best_loss_after = Fin 2, best_epoch_after = 1\<rparr>,
         \<lparr>epoch = 3, test_loss = Fin 4, saved = None, best_loss_after = Fin 2, best_epoch_after = 1\<rparr>]\<rparr>"

text \<open>The trainer after \<open>train(1, -2)\<close>.\<close>

definition toy_result_negative :: "(real, real) trainer" where
  "toy_result_negative =
     \<lparr>model = 1, train_iterator = [0], test_iterator = [1, 3], best_loss = Fin 3, best_epoch = 0,
      history =
        [\<lparr>epoch = 0, test_loss = Fin 3, saved = Some 1, best_loss_after = Fin 3, best_epoch_after = 0\<rparr>]\<rparr>"

text \<open>A framework whose criterion returns not-a-number on every batch, and the trainer after \<open>train(1, 0)\<close> with it.\<close>

definition nan_framework :: "(unit, unit) framework" where
  "nan_framework = \<lparr>batch_loss = (\<lambda>md m b. NaN), optimizer_step = (\<lambda>m b. m)\<rparr>"

definition nan_result :: "(unit, unit) trainer" where
  "nan_result =
     \<lparr>model = (), train_iterator = [()], test_iterator = [()], best_loss = PInf, best_epoch = 0,
      history =
        [\<lparr>epoch = 0, test_loss = NaN, saved = None, best_loss_after = PInf, best_epoch_after = 0\<rparr>]\<rparr>"

section \<open>Seq2Seq/system.py: the two Lightning systems\<close>

text \<open>
  A tensor of poses is represented by the list of its slices along dimension 0, each slice
  flattened to a list of numbers; \<open>p.size(0)\<close> is the length of the list.  The entries
  are idealised as reals.  Every torch tensor is rectangular: all slices have one size.
\<close>

type_synonym ptensor = "real list list"

definition rectangular :: "ptensor \<Rightarrow> bool" where
  "rectangular p = (\<forall>r \<in> set p. length r = length (hd p))"

text \<open>
  The functions of torch that the systems call on tensors.  They are taken as given:
  \<open>MSELoss\<close> is \<open>torch.nn.MSELoss()\<close>, \<open>torch_norm\<close> is \<open>torch.norm\<close> with its default
  arguments (the Frobenius norm), \<open>binary_cross_entropy_with_logits\<close> is the function of
  that name in \<open>torch.nn.functional\<close> and \<open>sigmoid_mean t\<close> is \<open>F.sigmoid(t).mean()\<close>.
  Each returns a zero-dimensional tensor, here a float.
\<close>

record torch_lib =
  MSELoss :: "ptensor \<Rightarrow> ptensor \<Rightarrow> pyfloat"
  torch_norm :: "ptensor \<Rightarrow> pyfloat"
  binary_cross_entropy_with_logits :: "ptensor \<Rightarrow> ptensor \<Rightarrow> pyfloat"
  sigmoid_mean :: "ptensor \<Rightarrow> pyfloat"

text \<open>
  A network of \<open>model.py\<close> (not part of the sources at hand): what it computes and the
  list \<open>parameters()\<close> of its parameters.
\<close>

record ('a, 'b, 'w) module =
  call :: "'a \<Rightarrow> 'b"
  parameters :: "'w list"

datatype 'w optimizer = Adam (opt_params: "'w list") (opt_lr: real) (opt_betas: "real \<times> real")

text \<open>The slices \<open>p[1:]\<close> and \<open>p[:-1]\<close>, the difference of two tensors of one shape, \<open>torch.ones((n, 1))\<close> and \<open>1 - t\<close>.\<close>

definition from_1 :: "ptensor \<Rightarrow> ptensor" where
  "from_1 p = drop 1 p"

definition upto_last :: "ptensor \<Rightarrow> ptensor" where
  "upto_last p = take (length p - 1) p"

definition tsub :: "ptensor \<Rightarrow> ptensor \<Rightarrow> ptensor" where
  "tsub a b = map2 (\<lambda>r s. map2 (\<lambda>u v. u - v) r s) a b"

definition ones :: "nat \<Rightarrow> ptensor" where
  "ones n = replicate n [1]"

definition one_minus :: "ptensor \<Rightarrow> ptensor" where
  "one_minus t = map (map (\<lambda>v. 1 - v)) t"

text \<open>
  The right-hand side of the assignment to \<open>cont_loss\<close>, which is the same text in
  \<open>calculate_loss\<close> of both classes and in the generator branch of \<open>training_step\<close>:
  \<open>torch.norm(p[1:] - p[:-1]) / (p.size(0) - 1)\<close>.
\<close>

definition cont_loss :: "torch_lib \<Rightarrow> ptensor \<Rightarrow> pyfloat" where
  "cont_loss lib p = fdiv (torch_norm lib (tsub (from_1 p) (upto_last p))) (int (length p) - 1)"

subsection \<open>Seq2SeqSystem\<close>

record ('x, 'o, 'h, 'q, 'w) system_fields =
  encoder :: "('x, 'o \<times> 'h, 'w) module"
  decoder :: "('o \<times> 'h \<times> 'q, ptensor, 'w) module"
  predicted_poses :: int
  previous_poses :: int
  train_folder :: string
  test_folder :: string

record ('x, 'o, 'h, 'q, 'w) Seq2SeqSystem = "('x, 'o, 'h, 'q, 'w) system_fields" +
  loss :: "ptensor \<Rightarrow> ptensor \<Rightarrow> pyfloat"

text \<open>
  \<open>__init__\<close>; the encoder \<open>Encoder(26, 150, 1)\<close> and the decoder
  \<open>Decoder(45, 150, 300, max_gen=predicted_poses)\<close> are passed in as built.
\<close>

definition Seq2SeqSystem_init ::
  "torch_lib \<Rightarrow> ('x, 'o \<times> 'h, 'w) module \<Rightarrow> ('o \<times> 'h \<times> 'q, ptensor, 'w) module \<Rightarrow>
   string \<Rightarrow> string \<Rightarrow> int \<Rightarrow> int \<Rightarrow> ('x, 'o, 'h, 'q, 'w) Seq2SeqSystem" where
  "Seq2SeqSystem_init lib enc dec train_dir test_dir n_predicted n_previous =
     \<lparr>encoder = enc, decoder = dec, predicted_poses = n_predicted, previous_poses = n_previous,
      train_folder = train_dir, test_folder = test_dir, loss = MSELoss lib\<rparr>"

definition forward :: "('x, 'o, 'h, 'q, 'w, 'z) system_fields_scheme \<Rightarrow> 'x \<Rightarrow> 'q \<Rightarrow> ptensor" where
  "forward s x p =
     (case call (encoder s) x of (output, hidden) \<Rightarrow> call (decoder s) (output, hidden, p))"

definition calculate_loss ::
  "torch_lib \<Rightarrow> ('x, 'o, 'h, 'q, 'w) Seq2SeqSystem \<Rightarrow> ptensor \<Rightarrow> ptensor \<Rightarrow> pyfloat" where
  "calculate_loss lib s p y =
     (let mse_loss = loss s p y;
          cont = cont_loss lib p
      in fadd mse_loss (fmul cont (Fin 0.01)))"

definition training_step ::
  "torch_lib \<Rightarrow> ('x, 'o, 'h, 'q, 'w) Seq2SeqSystem \<Rightarrow> 'x \<times> ptensor \<times> 'q \<Rightarrow> int \<Rightarrow> (string \<times> pyfloat) list" where
  "training_step lib s batch batch_nb =
     (case batch of (x, y, p) \<Rightarrow>
        let pred_poses = forward s x p in [(''loss'', calculate_loss lib s pred_poses y)])"

definition validation_step ::
  "torch_lib \<Rightarrow> ('x, 'o, 'h, 'q, 'w) Seq2SeqSystem \<Rightarrow> 'x \<times> ptensor \<times> 'q \<Rightarrow> int \<Rightarrow> (string \<times> pyfloat) list" where
  "validation_step lib s batch batch_nb =
     (case batch of (x, y, p) \<Rightarrow>
        let pred_poses = forward s x p in [(''loss'', calculate_loss lib s pred_poses y)])"

text \<open>
  \<open>self.parameters()\<close>: the parameters of the encoder, then those of the decoder, each
  listed once, at its first occurrence (the loss has none).
\<close>

definition all_parameters :: "('x, 'o, 'h, 'q, 'w, 'z) system_fields_scheme \<Rightarrow> 'w list" where
  "all_parameters s = rev (remdups (rev (parameters (encoder s) @ parameters (decoder s))))"

text \<open>\<open>configure_optimizers\<close>: Adam over all parameters, with the default betas of torch.\<close>

definition configure_optimizers :: "('x, 'o, 'h, 'q, 'w) Seq2SeqSystem \<Rightarrow> 'w optimizer" where
  "configure_optimizers s = Adam (all_parameters s) 0.001 (0.9, 0.999)"

subsection \<open>AdversarialSeq2SeqSystem\<close>

text \<open>
  The namespace \<open>hparams\<close>.  Its keys \<open>prev_poses\<close> and \<open>pred_poses\<close> carry a prefix
  here, \<open>pred_poses\<close> being also the name of a variable of \<open>training_step\<close>.
\<close>

record hparams =
  hp_prev_poses :: int
  hp_pred_poses :: int
  lr :: real
  beta1 :: real
  beta2 :: real
  w_cont_loss :: real
  w_adv_loss :: real

record ('x, 'o, 'h, 'q, 'w) AdversarialSeq2SeqSystem = "('x, 'o, 'h, 'q, 'w) system_fields" +
  hparams :: hparams
  discriminator :: "(ptensor, ptensor, 'w) module"
  base_loss :: "ptensor \<Rightarrow> ptensor \<Rightarrow> pyfloat"

text \<open>\<open>__init__\<close>; the three networks are passed in as built.\<close>

definition AdversarialSeq2SeqSystem_init ::
  "torch_lib \<Rightarrow> ('x, 'o \<times> 'h, 'w) module \<Rightarrow> ('o \<times> 'h \<times> 'q, ptensor, 'w) module \<Rightarrow>
   (ptensor, ptensor, 'w) module \<Rightarrow> string \<Rightarrow> string \<Rightarrow> int \<Rightarrow> int \<Rightarrow>
   ('x, 'o, 'h, 'q, 'w) AdversarialSeq2SeqSystem" where
  "AdversarialSeq2SeqSystem_init lib enc dec disc train_dir test_dir n_predicted n_previous =
     \<lparr>encoder = enc, decoder = dec, predicted_poses = n_predicted, previous_poses = n_previous,
      train_folder = train_dir, test_folder = test_dir,
      hparams = \<lparr>hp_prev_poses = n_previous, hp_pred_poses = n_predicted, lr = 0.001,
                 beta1 = 0.5, beta2 = 0.9, w_cont_loss = 0.01, w_adv_loss = 0.01\<rparr>,
      discriminator = disc, base_loss = MSELoss lib\<rparr>"

definition adv_calculate_loss ::
  "torch_lib \<Rightarrow> ('x, 'o, 'h, 'q, 'w) AdversarialSeq2SeqSystem \<Rightarrow> ptensor \<Rightarrow> ptensor \<Rightarrow> pyfloat" where
  "adv_calculate_loss lib s p y =
     (let base = base_loss s p y;
          cont = cont_loss lib p
      in fadd base (fmul cont (Fin (w_cont_loss (hparams s)))))"

text \<open>
  The dictionary returned by \<open>training_step\<close>: its \<open>loss\<close>, and the two dictionaries
  \<open>progress_bar\<close> and \<open>log\<close> with their keys in order.
\<close>

record step_output =
  out_loss :: pyfloat
  progress_bar :: "(string \<times> pyfloat) list"
  out_log :: "(string \<times> pyfloat) list"

text \<open>The branch \<open>optimizer_idx == 0\<close> (train generator).\<close>

definition generator_step ::
  "torch_lib \<Rightarrow> ('x, 'o, 'h, 'q, 'w) AdversarialSeq2SeqSystem \<Rightarrow> ptensor \<Rightarrow> ptensor \<Rightarrow> step_output" where
  "generator_step lib s pred_poses real_poses =
     (let base = base_loss s pred_poses real_poses;
          cont = cont_loss lib pred_poses;
          is_real = ones (length pred_poses);
          adv_loss = binary_cross_entropy_with_logits lib (call (discriminator s) pred_poses) is_real;
          total = fadd (fadd base (fmul (Fin (w_cont_loss (hparams s))) cont))
                       (fmul (Fin (w_adv_loss (hparams s))) adv_loss);
          d_fake_score = sigmoid_mean lib (call (discriminator s) pred_poses);
          logs = [(''loss'', total), (''g_adv_loss'', adv_loss), (''base_loss'', base),
                  (''cont_loss'', cont), (''d_fake_score'', d_fake_score)]
      in \<lparr>out_loss = total,
          progress_bar = [(''total_loss'', total), (''d_fake_score'', d_fake_score)],
          out_log = logs\<rparr>)"

text \<open>The branch \<open>optimizer_idx == 1\<close> (train discriminator); \<open>detach\<close> leaves the values as they are.\<close>

definition discriminator_step ::
  "torch_lib \<Rightarrow> ('x, 'o, 'h, 'q, 'w) AdversarialSeq2SeqSystem \<Rightarrow> ptensor \<Rightarrow> ptensor \<Rightarrow> step_output" where
  "discriminator_step lib s pred_poses real_poses =
     (let d_real_scores = call (discriminator s) real_poses;
          d_fake_scores = call (discriminator s) pred_poses;
          is_real = ones (length pred_poses);
          real_loss = binary_cross_entropy_with_logits lib d_real_scores is_real;
          fake_loss = binary_cross_entropy_with_logits lib d_fake_scores (one_minus is_real);
          d_loss = fdiv (fadd real_loss fake_loss) 2;
          d_fake_score = sigmoid_mean lib d_fake_scores;
          d_real_score = sigmoid_mean lib d_real_scores;
          logs = [(''loss'', d_loss), (''d_real_loss'', real_loss), (''d_fake_loss'', fake_loss),
                  (''d_fake_score'', d_fake_score), (''d_real_score'', d_real_score)]
      in \<lparr>out_loss = d_loss,
          progress_bar = [(''d_loss'', d_loss), (''d_fake_score'', d_fake_score),
                          (''d_real_score'', d_real_score)],
          out_log = logs\<rparr>)"

text \<open>
  \<open>training_step\<close>: with an \<open>optimizer_idx\<close> other than 0 and 1 the method falls off its
  end and returns \<open>None\<close>.
\<close>

definition adv_training_step ::
  "torch_lib \<Rightarrow> ('x, 'o, 'h, 'q, 'w) AdversarialSeq2SeqSystem \<Rightarrow> 'x \<times> ptensor \<times> 'q \<Rightarrow> int \<Rightarrow> int \<Rightarrow>
   step_output option" where
  "adv_training_step lib s batch batch_nb optimizer_idx =
     (case batch of (audio_features, real_poses, prev) \<Rightarrow>
        let pred_poses = forward s audio_features prev;
            l = adv_calculate_loss lib s pred_poses real_poses
        in if optimizer_idx = 0 then Some (generator_step lib s pred_poses real_poses)
           else if optimizer_idx = 1 then Some (discriminator_step lib s pred_poses real_poses)
           else None)"

text \<open>\<open>configure_optimizers\<close>: the list of the two optimizers and the empty list of schedulers.\<close>

definition adv_configure_optimizers ::
  "('x, 'o, 'h, 'q, 'w) AdversarialSeq2SeqSystem \<Rightarrow> 'w optimizer list \<times> unit list" where
  "adv_configure_optimizers s =
     (let rate = lr (hparams s);
          b1 = beta1 (hparams s);
          b2 = beta2 (hparams s);
          opt_g = Adam (parameters (encoder s) @ parameters (decoder s)) rate (b1, b2);
          opt_d = Adam (parameters (discriminator s)) rate (b1, b2)
      in ([opt_g, opt_d], []))"

subsection \<open>Notions used to state the properties of the losses\<close>

text \<open>
  The consecutive-row differences of a tensor as the properties word them: row \<open>i\<close> is
  row \<open>i + 1\<close> of the tensor minus its row \<open>i\<close>, entry by entry.
\<close>

definition consecutive_differences :: "ptensor \<Rightarrow> ptensor" where
  "consecutive_differences p =
     map (\<lambda>i. map (\<lambda>j. p ! Suc i ! j - p ! i ! j) [0 ..< length (hd p)]) [0 ..< length p - 1]"

text \<open>Whether a float is a finite number (\<open>math.isfinite\<close>); used in statements only.\<close>

fun isfinite :: "pyfloat \<Rightarrow> bool" where
  "isfinite (Fin a) = True"
| "isfinite a = False"

subsection \<open>An instance of the library and of the networks, for the examples\<close>

text \<open>
  The four functions with their documented meaning on tensors of equal shape: the mean of
  the squared differences, the square root of the sum of the squares, the mean of
  \<open>max(x, 0) - x * t + log(1 + exp(-|x|))\<close> and the mean of \<open>1 / (1 + exp(-x))\<close>; the
  mean of no entries is not-a-number.
\<close>

definition mean_of :: "real list \<Rightarrow> pyfloat" where
  "mean_of xs = (if xs = [] then NaN else Fin (sum_list xs / real (length xs)))"

definition sample_lib :: torch_lib where
  "sample_lib =
     \<lparr>MSELoss = (\<lambda>p y. mean_of (map (\<lambda>v. v * v) (concat (tsub p y)))),
      torch_norm = (\<lambda>t. Fin (sqrt (sum_list (map (\<lambda>v. v * v) (concat t))))),
      binary_cross_entropy_with_logits =
        (\<lambda>x t. mean_of (map2 (\<lambda>a b. max a 0 - a * b + ln (1 + exp (- \<bar>a\<bar>))) (concat x) (concat t))),
      sigmoid_mean = (\<lambda>t. mean_of (map (\<lambda>a. 1 / (1 + exp (- a))) (concat t)))\<rparr>"

definition sample_encoder :: "(unit, unit \<times> unit, nat) module" where
  "sample_encoder = \<lparr>call = (\<lambda>x. ((), ())), parameters = [0, 1]\<rparr>"

definition sample_decoder :: "(unit \<times> unit \<times> ptensor, ptensor, nat) module" where
  "sample_decoder = \<lparr>call = (\<lambda>(output, hidden, p). p), parameters = [2]\<rparr>"

definition sample_discriminator :: "(ptensor, ptensor, nat) module" where
  "sample_discriminator = \<lparr>call = map (\<lambda>r. [sum_list r]), parameters = [3, 4]\<rparr>"

text \<open>Two predicted poses and their targets.\<close>

definition sample_poses :: ptensor where
  "sample_poses = [[0, 0], [3, 4]]"

definition sample_targets :: ptensor where
  "sample_targets = [[0, 2], [3, 4]]"

section \<open>tools/datasets.py: the two datasets\<close>

text \<open>
  A torch tensor (or numpy array) with its shape and its entries in row-major order; a
  well-formed one has as many entries as the product of its shape.  The entries are
  idealised as reals.
\<close>

datatype tensor = Tensor (shape: "nat list") (elems: "real list")

definition well_formed :: "tensor \<Rightarrow> bool" where
  "well_formed t = (length (elems t) = prod_list (shape t))"

text \<open>
  What the code takes from its surroundings: the contents \<open>uninit\<close> of the memory that
  \<open>torch.empty\<close> hands out, by position, and the conversion \<open>to_float\<close> of an entry to
  \<open>torch.float\<close> that an assignment into such a tensor performs.
\<close>

record torch_env =
  uninit :: "nat \<Rightarrow> real"
  to_float :: "real \<Rightarrow> real"

text \<open>\<open>t.size()[k]\<close>: an index beyond the rank of the tensor raises.\<close>

definition size_at :: "tensor \<Rightarrow> nat \<Rightarrow> py_error + nat" where
  "size_at t k = (if k < length (shape t) then Inr (shape t ! k) else Inl IndexError)"

text \<open>
  A batch tensor of shape \<open>(n, d1, ...)\<close> is represented by the list of its \<open>n\<close> slices
  along dimension 0, each a tensor of shape \<open>(d1, ...)\<close>.  \<open>torch.empty((n, d1, ...))\<close>
  takes its entries from the uninitialised memory.
\<close>

definition torch_empty :: "torch_env \<Rightarrow> nat \<Rightarrow> nat list \<Rightarrow> tensor list" where
  "torch_empty env n ds =
     map (\<lambda>i. Tensor ds (map (\<lambda>k. uninit env (i * prod_list ds + k)) [0 ..< prod_list ds])) [0 ..< n]"

text \<open>
  The assignment \<open>dst[i] = v\<close> of torch.  A value of the shape of the slice is copied.
  Otherwise the leading dimensions of size 1 of the value are dropped and it is expanded
  to the shape of the slice: aligned at the right, each of its dimensions must be 1 or
  that of the slice; if not, the assignment raises \<open>RuntimeError\<close>.
\<close>

definition expandable :: "nat list \<Rightarrow> nat list \<Rightarrow> bool" where
  "expandable src dst =
     (length src \<le> length dst \<and>
      list_all2 (\<lambda>s d. s = d \<or> s = 1) src (drop (length dst - length src) dst))"

fun expand :: "nat list \<Rightarrow> nat list \<Rightarrow> real list \<Rightarrow> real list" where
  "expand (s # ss) (d # ds) es =
     (if s = d
      then concat (map (\<lambda>k. expand ss ds (take (prod_list ss) (drop (k * prod_list ss) es))) [0 ..< d])
      else concat (replicate d (expand ss ds es)))"
| "expand ss ds es = es"

definition setitem :: "torch_env \<Rightarrow> tensor list \<Rightarrow> nat \<Rightarrow> tensor \<Rightarrow> py_error + tensor list" where
  "setitem env dst i v =
     (let ds = shape (dst ! i) in
      if shape v = ds then Inr (dst[i := Tensor ds (map (to_float env) (elems v))])
      else
        let src = dropWhile (\<lambda>d. d = 1) (shape v) in
        if expandable src ds
        then Inr (dst[i := Tensor ds (map (to_float env)
                     (expand (replicate (length ds - length src) 1 @ src) ds (elems v)))])
        else Inl RuntimeError)"

text \<open>
  The loop \<open>for i in range(batch_size)\<close> of both \<open>collate_fn\<close>: the two assignments of one
  pass, for the positions still to do.
\<close>

fun fill ::
  "torch_env \<Rightarrow> tensor list \<Rightarrow> tensor list \<Rightarrow> nat list \<Rightarrow> tensor list \<Rightarrow> tensor list \<Rightarrow>
   py_error + tensor list \<times> tensor list" where
  "fill env x y [] input_tensor output_tensor = Inr (input_tensor, output_tensor)"
| "fill env x y (i # rest) input_tensor output_tensor =
     (case setitem env input_tensor i (x ! i) of
        Inl err \<Rightarrow> Inl err
      | Inr input_tensor' \<Rightarrow>
          (case setitem env output_tensor i (y ! i) of
             Inl err \<Rightarrow> Inl err
           | Inr output_tensor' \<Rightarrow> fill env x y rest input_tensor' output_tensor'))"

subsection \<open>MotionDataset\<close>

text \<open>
  \<open>sigma\<close> is a number or an array with one number per entry of a frame; \<open>np.multiply\<close>
  and \<open>+\<close> act on each of its numbers.
\<close>

datatype np_value = Scalar real | Vector "real list"

fun np_map :: "(real \<Rightarrow> real) \<Rightarrow> np_value \<Rightarrow> np_value" where
  "np_map f (Scalar s) = Scalar (f s)"
| "np_map f (Vector v) = Vector (map f v)"

text \<open>The frames \<open>data[0], data[1], ...\<close> are one-dimensional arrays.\<close>

record MotionDataset =
  data :: "real list list"
  device :: string
  sigma :: np_value
  variance :: real
  eps :: real
  add_noise :: bool

definition MotionDataset_init ::
  "real list list \<Rightarrow> string \<Rightarrow> np_value \<Rightarrow> real \<Rightarrow> bool \<Rightarrow> MotionDataset" where
  "MotionDataset_init d dev sg var noisy =
     \<lparr>data = d, device = dev, sigma = sg, variance = var, eps = 1 / 10 ^ 15, add_noise = noisy\<rparr>"

definition MotionDataset_len :: "MotionDataset \<Rightarrow> int" where
  "MotionDataset_len ds = int (length (data ds))"

text \<open>\<open>a[item]\<close> of numpy: a negative index counts from the end, one out of range raises.\<close>

definition np_index :: "'a list \<Rightarrow> int \<Rightarrow> py_error + 'a" where
  "np_index a item =
     (if 0 \<le> item \<and> item < int (length a) then Inr (a ! nat item)
      else if item < 0 \<and> - int (length a) \<le> item then Inr (a ! nat (int (length a) + item))
      else Inl IndexError)"

text \<open>The sum of two one-dimensional arrays: equal lengths, or one of length 1 that is repeated.\<close>

definition np_add :: "real list \<Rightarrow> real list \<Rightarrow> py_error + real list" where
  "np_add a b =
     (if length a = length b then Inr (map2 (\<lambda>u v. u + v) a b)
      else if length b = 1 then Inr (map (\<lambda>u. u + hd b) a)
      else if length a = 1 then Inr (map (\<lambda>v. hd a + v) b)
      else Inl ValueError)"

definition from_numpy :: "real list \<Rightarrow> tensor" where
  "from_numpy a = Tensor [length a] a"

text \<open>
  \<open>__getitem__\<close>.  The generator of \<open>np.random\<close> is a state \<open>g\<close> that is passed along;
  \<open>normal g loc scale size\<close> is \<open>np.random.normal(loc, scale, size)\<close> in that state: the
  samples or an error, and the next state.
\<close>

definition MotionDataset_getitem ::
  "('g \<Rightarrow> real \<Rightarrow> np_value \<Rightarrow> nat \<Rightarrow> (py_error + real list) \<times> 'g) \<Rightarrow> MotionDataset \<Rightarrow> 'g \<Rightarrow> int \<Rightarrow>
   (py_error + tensor \<times> tensor) \<times> 'g" where
  "MotionDataset_getitem normal ds g item =
     (case np_index (data ds) item of
        Inl err \<Rightarrow> (Inl err, g)
      | Inr x \<Rightarrow>
          if add_noise ds
          then
            (case normal g 0 (np_map (\<lambda>s. s * variance ds + eps ds) (sigma ds)) (length x) of
               (Inl err, g') \<Rightarrow> (Inl err, g')
             | (Inr noise, g') \<Rightarrow>
                 (case np_add x noise of
                    Inl err \<Rightarrow> (Inl err, g')
                  | Inr noisy \<Rightarrow> (Inr (from_numpy noisy, from_numpy x), g')))
          else (Inr (from_numpy x, from_numpy x), g))"

text \<open>
  \<open>collate_fn\<close>.  Unpacking \<open>list(zip(*batch))\<close> of an empty batch into \<open>x, y\<close> raises
  \<open>ValueError\<close>; \<open>.to(self.device)\<close> leaves the values as they are.
\<close>

definition MotionDataset_collate_fn ::
  "torch_env \<Rightarrow> (tensor \<times> tensor) list \<Rightarrow> py_error + tensor list \<times> tensor list" where
  "MotionDataset_collate_fn env batch =
     (if batch = [] then Inl ValueError
      else
        let x = map fst batch; y = map snd batch; batch_size = length x in
        case size_at (x ! 0) 0 of
          Inl err \<Rightarrow> Inl err
        | Inr dx \<Rightarrow>
            (case size_at (y ! 0) 0 of
               Inl err \<Rightarrow> Inl err
             | Inr dy \<Rightarrow>
                 fill env x y [0 ..< batch_size]
                   (torch_empty env batch_size [dx]) (torch_empty env batch_size [dy])))"

subsection \<open>SpeechMotionDataset\<close>

text \<open>
  The arrays \<open>X\<close> and \<open>Y\<close> as \<open>__init__\<close> leaves them, each given by its slices along
  axis 0; \<open>__init__\<close> asserts that they have the same length.
\<close>

record SpeechMotionDataset =
  X :: "tensor list"
  Y :: "tensor list"
  speech_device :: string

definition SpeechMotionDataset_len :: "SpeechMotionDataset \<Rightarrow> int" where
  "SpeechMotionDataset_len ds = int (length (X ds))"

definition SpeechMotionDataset_getitem :: "SpeechMotionDataset \<Rightarrow> int \<Rightarrow> py_error + tensor \<times> tensor" where
  "SpeechMotionDataset_getitem ds item =
     (case np_index (X ds) item of
        Inl err \<Rightarrow> Inl err
      | Inr x \<Rightarrow> (case np_index (Y ds) item of Inl err \<Rightarrow> Inl err | Inr y \<Rightarrow> Inr (x, y)))"

definition SpeechMotionDataset_collate_fn ::
  "torch_env \<Rightarrow> (tensor \<times> tensor) list \<Rightarrow> py_error + tensor list \<times> tensor list" where
  "SpeechMotionDataset_collate_fn env batch =
     (if batch = [] then Inl ValueError
      else
        let x = map fst batch; y = map snd batch; batch_size = length x in
        case size_at (x ! 0) 0 of
          Inl err \<Rightarrow> Inl err
        | Inr dx0 \<Rightarrow>
            (case size_at (x ! 0) 1 of
               Inl err \<Rightarrow> Inl err
             | Inr dx1 \<Rightarrow>
                 (case size_at (y ! 0) 0 of
                    Inl err \<Rightarrow> Inl err
                  | Inr dy \<Rightarrow>
                      fill env x y [0 ..< batch_size]
                        (torch_empty env batch_size [dx0, dx1]) (torch_empty env batch_size [dy]))))"

subsection \<open>Notions used to state the properties of the datasets, and examples\<close>

text \<open>An example as it stands in a batch tensor: its shape, its entries converted to \<open>torch.float\<close>.\<close>

definition as_float :: "torch_env \<Rightarrow> tensor \<Rightarrow> tensor" where
  "as_float env t = Tensor (shape t) (map (to_float env) (elems t))"

text \<open>All examples of a batch have the shapes of the first one.\<close>

definition uniform :: "(tensor \<times> tensor) list \<Rightarrow> bool" where
  "uniform batch =
     (\<forall>e \<in> set batch. shape (fst e) = shape (fst (hd batch)) \<and> shape (snd e) = shape (snd (hd batch)))"

text \<open>Memory full of zeros, and no rounding.\<close>

definition sample_env :: torch_env where
  "sample_env = \<lparr>uninit = (\<lambda>k. 0), to_float = (\<lambda>v. v)\<rparr>"

text \<open>A batch of two frames of length 2, and one whose second frame has length 3.\<close>

definition sample_batch :: "(tensor \<times> tensor) list" where
  "sample_batch = [(Tensor [2] [1, 2], Tensor [2] [1, 2]), (Tensor [2] [3, 4], Tensor [2] [3, 4])]"

definition ragged_batch :: "(tensor \<times> tensor) list" where
  "ragged_batch = [(Tensor [2] [1, 2], Tensor [2] [1, 2]), (Tensor [3] [3, 4, 5], Tensor [3] [3, 4, 5])]"

text \<open>The same for speech features of shape \<open>(2, 2)\<close> with motion targets of length 1.\<close>

definition sample_speech_batch :: "(tensor \<times> tensor) list" where
  "sample_speech_batch =
     [(Tensor [2, 2] [1, 2, 3, 4], Tensor [1] [5]), (Tensor [2, 2] [6, 7, 8, 9], Tensor [1] [10])]"

definition ragged_speech_batch :: "(tensor \<times> tensor) list" where
  "ragged_speech_batch =
     [(Tensor [2, 2] [1, 2, 3, 4], Tensor [1] [5]), (Tensor [3, 2] [6, 7, 8, 9, 10, 11], Tensor [1] [10])]"

text \<open>A generator whose state counts the draws and whose samples are all \<open>0.5\<close>; a dataset of two frames.\<close>

definition sample_normal :: "nat \<Rightarrow> real \<Rightarrow> np_value \<Rightarrow> nat \<Rightarrow> (py_error + real list) \<times> nat" where
  "sample_normal g loc scale n = (Inr (replicate n 0.5), Suc g)"

definition sample_dataset :: "bool \<Rightarrow> MotionDataset" where
  "sample_dataset noisy = MotionDataset_init [[1, 2], [3, 4]] ''cpu'' (Scalar 1) 0.01 noisy"

section \<open>Properties of the floats\<close>

lemma flt_NaN_left [simp]: "\<not> flt NaN b"
  by (cases b) simp_all

lemma flt_NaN_right [simp]: "\<not> flt a NaN"
  by (cases a) simp_all

lemma flt_irrefl [simp]: "\<not> flt a a"
  by (cases a) simp_all

lemma flt_trans: "flt a b \<Longrightarrow> flt b c \<Longrightarrow> flt a c"
  by (cases a; cases b; cases c) simp_all

lemma flt_linear: "a \<noteq> NaN \<Longrightarrow> b \<noteq> NaN \<Longrightarrow> flt a b \<or> a = b \<or> flt b a"
  by (cases a; cases b) auto

lemma flt_asym: "flt a b \<Longrightarrow> \<not> flt b a"
  by (cases a; cases b) simp_all

lemma flt_PInf_iff: "flt a PInf \<longleftrightarrow> a \<noteq> NaN \<and> a \<noteq> PInf"
  by (cases a) simp_all

lemma fle_refl: "a \<noteq> NaN \<Longrightarrow> fle a a"
  by (simp add: fle_def)

lemma fle_trans: "fle a b \<Longrightarrow> fle b c \<Longrightarrow> fle a c"
  unfolding fle_def by (auto intro: flt_trans)

lemma fle_PInf: "a \<noteq> NaN \<Longrightarrow> fle a PInf"
  by (cases a) (simp_all add: fle_def)

lemma not_flt_fle: "a \<noteq> NaN \<Longrightarrow> b \<noteq> NaN \<Longrightarrow> \<not> flt a b \<Longrightarrow> fle b a"
  using flt_linear [of a b] by (auto simp: fle_def)

lemma fle_not_flt: "fle a b \<Longrightarrow> \<not> flt b a"
  unfolding fle_def by (auto dest: flt_asym)

lemma flt_fle_trans: "flt a b \<Longrightarrow> fle b c \<Longrightarrow> flt a c"
  unfolding fle_def by (auto intro: flt_trans)

lemma foldl_fadd_finite: "foldl fadd (Fin a) (map Fin rs) = Fin (a + sum_list rs)"
  by (induction rs arbitrary: a) (simp_all add: add.assoc)

section \<open>Properties of \<open>MotionTrainer\<close>\<close>

lemma foldl_train_batch_fst:
  "fst (foldl (train_batch fw) acc bs) = foldl (optimizer_step fw) (fst acc) bs"
proof (induction bs arbitrary: acc)
  case Nil
  show ?case by simp
next
  case (Cons b bs)
  obtain m tl i pr where acc: "acc = (m, tl, i, pr)" by (cases acc) auto
  show ?case unfolding foldl_Cons Cons.IH by (simp add: acc train_batch_def Let_def)
qed

lemma train_epoch_fst:
  "fst (train_epoch fw t) = t\<lparr>model := fit fw (train_iterator t) (model t)\<rparr>"
proof -
  obtain m tl i pr where r: "foldl (train_batch fw) (model t, Fin 0, 0, []) (train_iterator t) = (m, tl, i, pr)"
    by (cases "foldl (train_batch fw) (model t, Fin 0, 0, []) (train_iterator t)") auto
  have "m = fit fw (train_iterator t) (model t)"
    using foldl_train_batch_fst [of fw "(model t, Fin 0, 0, [])" "train_iterator t"]
    by (simp add: r fit_def)
  then show ?thesis by (simp add: train_epoch_def r)
qed

lemma test_epoch_nonempty:
  "test_iterator t \<noteq> [] \<Longrightarrow> test_epoch fw t = Inr (mean_loss fw (test_iterator t) (model t))"
  by (simp add: test_epoch_def mean_loss_def py_truediv_def Let_def)

lemma test_epoch_empty:
  "test_iterator t = [] \<Longrightarrow> test_epoch fw t = Inl ZeroDivisionError"
  by (simp add: test_epoch_def py_truediv_def Let_def)

text \<open>With finite losses on all test batches the test loss is their sum over their number, in the reals.\<close>

lemma mean_loss_finite:
  assumes "map (batch_loss fw Evaluation m) tst = map Fin rs" and "tst \<noteq> []"
  shows "mean_loss fw tst m = Fin (sum_list rs / real (length tst))"
  using assms(2) by (simp add: mean_loss_def assms(1) foldl_fadd_finite)

lemma train_loop_trace:
  assumes "test_iterator t \<noteq> []"
  shows "\<exists>ens be' bl'. train_loop fw p es t =
           Inr (t\<lparr>model := ((fit fw (train_iterator t)) ^^ length ens) (model t),
                  best_loss := bl', best_epoch := be',
                  history := history t @ ens\<rparr>) \<and>
         trace_ok fw (train_iterator t) (test_iterator t) p es (model t) (best_loss t) (best_epoch t) ens \<and>
         bl' = (if ens = [] then best_loss t else best_loss_after (last ens)) \<and>
         be' = (if ens = [] then best_epoch t else best_epoch_after (last ens))"
  using assms
proof (induction es arbitrary: t)
  case Nil
  show ?case by (rule exI [of _ "[]"]) simp
next
  case (Cons ep rest)
  let ?m1 = "fit fw (train_iterator t) (model t)"
  let ?t1 = "t\<lparr>model := ?m1\<rparr>"
  let ?loss = "mean_loss fw (test_iterator t) ?m1"
  let ?imp = "flt ?loss (best_loss t)"
  let ?bl = "if ?imp then ?loss else best_loss t"
  let ?be = "if ?imp then ep else best_epoch t"
  let ?en = "\<lparr>epoch = ep, test_loss = ?loss, saved = (if ?imp then Some ?m1 else None),
               best_loss_after = ?bl, best_epoch_after = ?be\<rparr>"
  let ?t3 = "t\<lparr>model := ?m1, best_loss := ?bl, best_epoch := ?be, history := history t @ [?en]\<rparr>"
  have te: "test_epoch fw ?t1 = Inr ?loss"
    using Cons.prems by (simp add: test_epoch_nonempty)
  have step: "train_loop fw p (ep # rest) t =
      (if ep - ?be > p then Inr ?t3 else train_loop fw p rest ?t3)"
    by (simp add: train_epoch_fst te Let_def)
  show ?case
  proof (cases "ep - ?be > p")
    case True
    show ?thesis
      apply (rule exI [of _ "[?en]"])
      using True step by simp
  next
    case False
    have ne: "test_iterator ?t3 \<noteq> []" using Cons.prems by simp
    from Cons.IH [OF ne] obtain ens be' bl' where
      r: "train_loop fw p rest ?t3 =
           Inr (?t3\<lparr>model := ((fit fw (train_iterator ?t3)) ^^ length ens) (model ?t3),
                  best_loss := bl', best_epoch := be',
                  history := history ?t3 @ ens\<rparr>)"
      and ok: "trace_ok fw (train_iterator ?t3) (test_iterator ?t3) p rest (model ?t3) (best_loss ?t3) (best_epoch ?t3) ens"
      and bl: "bl' = (if ens = [] then best_loss ?t3 else best_loss_after (last ens))"
      and be: "be' = (if ens = [] then best_epoch ?t3 else best_epoch_after (last ens))"
      by blast
    show ?thesis
      apply (rule exI [of _ "?en # ens"])
      apply (rule exI [of _ be'])
      apply (rule exI [of _ bl'])
      using False step r ok bl be by (simp add: funpow_swap1)
  qed
qed

lemma trace_epochs:
  "trace_ok fw trn tst p es m bl be ens \<Longrightarrow>
     length ens \<le> length es \<and> map epoch ens = take (length ens) es"
proof (induction es arbitrary: m bl be ens)
  case Nil
  then show ?case by simp
next
  case (Cons ep rest)
  then show ?case by (cases ens) (auto split: if_splits)
qed

lemma trace_break:
  "trace_ok fw trn tst p es m bl be ens \<Longrightarrow> i < length ens \<Longrightarrow>
     epoch (ens ! i) - best_epoch_after (ens ! i) > p \<Longrightarrow> Suc i = length ens"
proof (induction es arbitrary: m bl be ens i)
  case Nil
  then show ?case by simp
next
  case (Cons ep rest)
  show ?case
  proof (cases ens)
    case Nil
    with Cons.prems show ?thesis by simp
  next
    case (Cons en ens')
    show ?thesis
    proof (cases i)
      case 0
      with Cons.prems Cons show ?thesis by (auto split: if_splits)
    next
      case (Suc i')
      with Cons.prems Cons Cons.IH [of _ _ _ ens' i'] show ?thesis
        by (auto split: if_splits)
    qed
  qed
qed

lemma trace_full:
  "trace_ok fw trn tst p es m bl be ens \<Longrightarrow>
     (\<forall>i < length ens. \<not> epoch (ens ! i) - best_epoch_after (ens ! i) > p) \<Longrightarrow>
     length ens = length es"
proof (induction es arbitrary: m bl be ens)
  case Nil
  then show ?case by simp
next
  case (Cons ep rest)
  show ?case
  proof (cases ens)
    case Nil
    with Cons.prems show ?thesis by simp
  next
    case c: (Cons en ens')
    from Cons.prems(2) c have e0: "\<not> ep - best_epoch_after en > p"
      using Cons.prems(1) by (auto split: if_splits)
    from Cons.prems(2) c have rest: "\<forall>i < length ens'. \<not> epoch (ens' ! i) - best_epoch_after (ens' ! i) > p"
      by auto
    from Cons.prems(1) c e0 have "trace_ok fw trn tst p rest (fit fw trn m) (best_loss_after en) (best_epoch_after en) ens'"
      by (auto split: if_splits)
    from Cons.IH [OF this rest] c show ?thesis by simp
  qed
qed

text \<open>What one pass of the loop body did, by position in the history.\<close>

lemma trace_step:
  "trace_ok fw trn tst p es m bl be ens \<Longrightarrow> i < length ens \<Longrightarrow>
     (let en = ens ! i;
          bl0 = (if i = 0 then bl else best_loss_after (ens ! (i - 1)));
          be0 = (if i = 0 then be else best_epoch_after (ens ! (i - 1)));
          mi = ((fit fw trn) ^^ (Suc i)) m
      in epoch en = es ! i \<and> test_loss en = mean_loss fw tst mi \<and>
         saved en = (if flt (test_loss en) bl0 then Some mi else None) \<and>
         best_loss_after en = (if flt (test_loss en) bl0 then test_loss en else bl0) \<and>
         best_epoch_after en = (if flt (test_loss en) bl0 then es ! i else be0))"
proof (induction es arbitrary: m bl be ens i)
  case Nil
  then show ?case by simp
next
  case (Cons ep rest)
  show ?case
  proof (cases ens)
    case Nil
    with Cons.prems show ?thesis by simp
  next
    case c: (Cons en ens')
    show ?thesis
    proof (cases i)
      case 0
      with Cons.prems c show ?thesis by (auto simp: Let_def split: if_splits)
    next
      case (Suc i')
      from Cons.prems c Suc have i': "i' < length ens'" by simp
      with Cons.prems(1) c have ok: "trace_ok fw trn tst p rest (fit fw trn m) (best_loss_after en) (best_epoch_after en) ens'"
        by (auto split: if_splits)
      from Cons.IH [OF ok i'] show ?thesis
        unfolding c Suc by (cases i') (simp_all add: Let_def funpow_swap1)
    qed
  qed
qed

text \<open>The attribute \<open>best_loss\<close> after the pass at position \<open>i\<close>, from a trace.\<close>

lemma trace_best_loss:
  assumes ok: "trace_ok fw trn tst p es m bl be ens" and bl: "bl \<noteq> NaN"
  shows "i < length ens \<Longrightarrow>
     best_loss_after (ens ! i) \<noteq> NaN \<and>
     fle (best_loss_after (ens ! i)) bl \<and>
     (\<forall>j \<le> i. test_loss (ens ! j) \<noteq> NaN \<longrightarrow> fle (best_loss_after (ens ! i)) (test_loss (ens ! j))) \<and>
     (best_loss_after (ens ! i) = bl \<or> (\<exists>j \<le> i. best_loss_after (ens ! i) = test_loss (ens ! j)))"
proof (induction i)
  case 0
  from trace_step [OF ok 0]
  have b: "best_loss_after (ens ! 0) = (if flt (test_loss (ens ! 0)) bl then test_loss (ens ! 0) else bl)"
    by (simp add: Let_def)
  show ?case
  proof (cases "flt (test_loss (ens ! 0)) bl")
    case True
    then have "test_loss (ens ! 0) \<noteq> NaN" by auto
    with True b show ?thesis by (auto simp: fle_def)
  next
    case False
    with b bl show ?thesis by (auto simp: fle_refl not_flt_fle)
  qed
next
  case (Suc i)
  then have i: "i < length ens" by simp
  note IH = Suc.IH [OF i]
  let ?b = "best_loss_after (ens ! i)"
  let ?l = "test_loss (ens ! Suc i)"
  from trace_step [OF ok Suc.prems]
  have b: "best_loss_after (ens ! Suc i) = (if flt ?l ?b then ?l else ?b)"
    by (simp add: Let_def)
  show ?case
  proof (cases "flt ?l ?b")
    case True
    then have l: "?l \<noteq> NaN" by auto
    have b': "best_loss_after (ens ! Suc i) = ?l" using True b by simp
    have "fle ?l ?b" using True l IH by (simp add: fle_def)
    then have 1: "fle ?l bl" and 2: "\<forall>j \<le> i. test_loss (ens ! j) \<noteq> NaN \<longrightarrow> fle ?l (test_loss (ens ! j))"
      using IH by (auto intro: fle_trans)
    have 3: "\<forall>j \<le> Suc i. test_loss (ens ! j) \<noteq> NaN \<longrightarrow> fle ?l (test_loss (ens ! j))"
      using 2 l by (auto simp: le_Suc_eq fle_refl)
    show ?thesis unfolding b' using l 1 3 by auto
  next
    case False
    have b': "best_loss_after (ens ! Suc i) = ?b" using False b by simp
    have "?l \<noteq> NaN \<longrightarrow> fle ?b ?l" using False IH by (auto simp: not_flt_fle)
    then have 3: "\<forall>j \<le> Suc i. test_loss (ens ! j) \<noteq> NaN \<longrightarrow> fle ?b (test_loss (ens ! j))"
      using IH by (auto simp: le_Suc_eq)
    have 4: "?b = bl \<or> (\<exists>j \<le> Suc i. ?b = test_loss (ens ! j))"
      using IH by (auto simp: le_Suc_eq)
    show ?thesis unfolding b' using IH 3 4 by blast
  qed
qed

text \<open>When \<open>torch.save\<close> is called, in terms of the losses seen so far.\<close>

lemma trace_saved_iff:
  assumes ok: "trace_ok fw trn tst p es m bl be ens" and bl: "bl \<noteq> NaN" and i: "i < length ens"
  shows "saved (ens ! i) \<noteq> None \<longleftrightarrow>
     flt (test_loss (ens ! i)) bl \<and>
     (\<forall>j < i. test_loss (ens ! j) \<noteq> NaN \<longrightarrow> flt (test_loss (ens ! i)) (test_loss (ens ! j)))"
proof (cases i)
  case 0
  with trace_step [OF ok i] show ?thesis by (simp add: Let_def)
next
  case (Suc k)
  let ?l = "test_loss (ens ! i)"
  let ?b = "best_loss_after (ens ! k)"
  from trace_step [OF ok i] Suc have s: "saved (ens ! i) \<noteq> None \<longleftrightarrow> flt ?l ?b"
    by (simp add: Let_def)
  from i Suc have k: "k < length ens" by simp
  note B = trace_best_loss [OF ok bl k]
  show ?thesis
  proof
    assume "saved (ens ! i) \<noteq> None"
    with s have l: "flt ?l ?b" by simp
    with B have "flt ?l bl" by (blast intro: flt_fle_trans)
    moreover have "\<forall>j < i. test_loss (ens ! j) \<noteq> NaN \<longrightarrow> flt ?l (test_loss (ens ! j))"
      using l B Suc by (auto intro: flt_fle_trans)
    ultimately show "flt ?l bl \<and> (\<forall>j < i. test_loss (ens ! j) \<noteq> NaN \<longrightarrow> flt ?l (test_loss (ens ! j)))"
      by simp
  next
    assume a: "flt ?l bl \<and> (\<forall>j < i. test_loss (ens ! j) \<noteq> NaN \<longrightarrow> flt ?l (test_loss (ens ! j)))"
    from B have "?b = bl \<or> (\<exists>j \<le> k. ?b = test_loss (ens ! j))" by simp
    then have "flt ?l ?b"
    proof
      assume "?b = bl" with a show ?thesis by simp
    next
      assume "\<exists>j \<le> k. ?b = test_loss (ens ! j)"
      then obtain j where j: "j \<le> k" "?b = test_loss (ens ! j)" by blast
      with B have "test_loss (ens ! j) \<noteq> NaN" by simp
      with a j Suc show ?thesis by simp
    qed
    with s show "saved (ens ! i) \<noteq> None" by simp
  qed
qed

lemma py_range_nth: "i < nat n \<Longrightarrow> py_range n ! i = int i"
  by (simp add: py_range_def)

lemma length_py_range [simp]: "length (py_range n) = nat n"
  by (simp add: py_range_def)

lemma trace_best_epoch:
  assumes ok: "trace_ok fw trn tst p (py_range n) m PInf 0 ens"
  shows "i < length ens \<Longrightarrow>
    (best_loss_after (ens ! i) = PInf \<and> best_epoch_after (ens ! i) = 0 \<and>
       (\<forall>j \<le> i. \<not> flt (test_loss (ens ! j)) PInf)) \<or>
    (\<exists>k \<le> i. best_epoch_after (ens ! i) = int k \<and>
       test_loss (ens ! k) = best_loss_after (ens ! i) \<and> saved (ens ! k) \<noteq> None \<and>
       (\<forall>j < k. test_loss (ens ! j) \<noteq> best_loss_after (ens ! i)))"
proof (induction i)
  case 0
  have "length ens \<le> nat n" using trace_epochs [OF ok] by simp
  with 0 have "0 < nat n" by linarith
  then have e: "py_range n ! 0 = 0" by (simp add: py_range_nth)
  from trace_step [OF ok 0] e show ?case by (auto simp: Let_def)
next
  case (Suc i)
  then have i: "i < length ens" by simp
  have "length ens \<le> nat n" using trace_epochs [OF ok] by simp
  with Suc.prems have "Suc i < nat n" by linarith
  then have e: "py_range n ! Suc i = int (Suc i)" by (simp only: py_range_nth)
  let ?b = "best_loss_after (ens ! i)"
  let ?l = "test_loss (ens ! Suc i)"
  from trace_step [OF ok Suc.prems] e
  have st: "saved (ens ! Suc i) \<noteq> None \<longleftrightarrow> flt ?l ?b"
    "best_loss_after (ens ! Suc i) = (if flt ?l ?b then ?l else ?b)"
    "best_epoch_after (ens ! Suc i) = (if flt ?l ?b then int (Suc i) else best_epoch_after (ens ! i))"
    by (simp_all add: Let_def)
  note B = trace_best_loss [OF ok _ i, simplified]
  show ?case
  proof (cases "flt ?l ?b")
    case True
    have "\<forall>j < Suc i. test_loss (ens ! j) \<noteq> ?l"
    proof (intro allI impI)
      fix j assume j: "j < Suc i"
      show "test_loss (ens ! j) \<noteq> ?l"
      proof (cases "test_loss (ens ! j) = NaN")
        case True
        with \<open>flt ?l ?b\<close> show ?thesis by auto
      next
        case False
        with B j have "fle ?b (test_loss (ens ! j))" by simp
        with \<open>flt ?l ?b\<close> have "flt ?l (test_loss (ens ! j))" by (rule flt_fle_trans)
        then show ?thesis by auto
      qed
    qed
    with True st show ?thesis by auto
  next
    case False
    from Suc.IH [OF i] show ?thesis
    proof
      assume a: "?b = PInf \<and> best_epoch_after (ens ! i) = 0 \<and> (\<forall>j \<le> i. \<not> flt (test_loss (ens ! j)) PInf)"
      with False have "\<forall>j \<le> Suc i. \<not> flt (test_loss (ens ! j)) PInf"
        by (auto simp: le_Suc_eq)
      with a False st show ?thesis by simp
    next
      assume "\<exists>k \<le> i. best_epoch_after (ens ! i) = int k \<and>
         test_loss (ens ! k) = ?b \<and> saved (ens ! k) \<noteq> None \<and>
         (\<forall>j < k. test_loss (ens ! j) \<noteq> ?b)"
      then obtain k where "k \<le> i" "best_epoch_after (ens ! i) = int k"
         "test_loss (ens ! k) = ?b" "saved (ens ! k) \<noteq> None" "\<forall>j < k. test_loss (ens ! j) \<noteq> ?b"
        by blast
      with False st show ?thesis by (intro disjI2 exI [of _ k]) simp
    qed
  qed
qed

lemma trace_best_epoch_range:
  assumes ok: "trace_ok fw trn tst p (py_range n) m PInf 0 ens" and i: "i < length ens"
  shows "0 \<le> best_epoch_after (ens ! i) \<and> best_epoch_after (ens ! i) \<le> int i"
  using trace_best_epoch [OF ok i] by auto

lemma train_fresh_trace:
  assumes "tst \<noteq> []"
  shows "\<exists>t'. train fw (MotionTrainer_init trn tst m) n p = Inr t' \<and>
           trace_ok fw trn tst p (py_range n) m PInf 0 (history t') \<and>
           best_loss t' = (if history t' = [] then PInf else best_loss_after (last (history t'))) \<and>
           best_epoch t' = (if history t' = [] then 0 else best_epoch_after (last (history t')))"
proof -
  let ?t = "MotionTrainer_init trn tst m"
  have "test_iterator ?t \<noteq> []" using assms by (simp add: MotionTrainer_init_def)
  from train_loop_trace [OF this, of fw p "py_range n"]
  show ?thesis unfolding train_def by (auto simp: MotionTrainer_init_def)
qed

lemma train_empty_test:
  "0 < n \<Longrightarrow> train fw (MotionTrainer_init trn [] m) n p = Inl ZeroDivisionError"
proof -
  assume "0 < n"
  then obtain k where "nat n = Suc k" by (cases "nat n") auto
  then have "py_range n = 0 # map int [1 ..< Suc k]"
    by (simp add: py_range_def upt_conv_Cons del: upt_Suc)
  then show ?thesis
    by (simp add: train_def train_epoch_fst test_epoch_empty MotionTrainer_init_def)
qed

lemma train_no_epochs:
  "n \<le> 0 \<Longrightarrow> train fw t n p = Inr t"
  by (simp add: train_def py_range_def)

lemma py_range_10: "py_range 10 = [0, 1, 2, 3, 4, 5, 6, 7, 8, 9]"
  by (simp add: py_range_def upt_rec)

lemma py_range_1: "py_range 1 = [0]"
  by (simp add: py_range_def)

lemma toy_run: "train toy_framework toy_trainer 10 1 = Inr toy_result"
  by (simp add: train_def py_range_10 toy_trainer_def MotionTrainer_init_def toy_framework_def
      toy_result_def train_epoch_def train_batch_def test_epoch_def py_truediv_def Let_def)

lemma toy_run_negative: "train toy_framework toy_trainer 1 (- 2) = Inr toy_result_negative"
  by (simp add: train_def py_range_1 toy_trainer_def MotionTrainer_init_def toy_framework_def
      toy_result_negative_def train_epoch_def train_batch_def test_epoch_def py_truediv_def Let_def)

lemma nan_run: "train nan_framework (MotionTrainer_init [()] [()] ()) 1 0 = Inr nan_result"
  by (simp add: train_def py_range_1 MotionTrainer_init_def nan_framework_def
      nan_result_def train_epoch_def train_batch_def test_epoch_def py_truediv_def Let_def)

lemma trace_nonincreasing:
  assumes ok: "trace_ok fw trn tst p es m bl be ens" and bl: "bl \<noteq> NaN" and i: "i < length ens"
  shows "fle (best_loss_after (ens ! i)) (if i = 0 then bl else best_loss_after (ens ! (i - 1)))"
proof -
  let ?b0 = "if i = 0 then bl else best_loss_after (ens ! (i - 1))"
  have b0: "?b0 \<noteq> NaN"
  proof (cases i)
    case 0
    with bl show ?thesis by simp
  next
    case (Suc k)
    with i have "k < length ens" by simp
    from trace_best_loss [OF ok bl this] Suc show ?thesis by simp
  qed
  from trace_step [OF ok i]
  have "best_loss_after (ens ! i) = (if flt (test_loss (ens ! i)) ?b0 then test_loss (ens ! i) else ?b0)"
    by (simp add: Let_def)
  with b0 show ?thesis
    by (cases "flt (test_loss (ens ! i)) ?b0") (auto simp: fle_def)
qed

text \<open>
  Claim C1.  In a run of \<open>train\<close> on a freshly constructed trainer, \<open>torch.save\<close> is called
  in the pass of epoch \<open>i\<close> exactly when the test loss of that epoch is strictly less than
  \<open>math.inf\<close> and than the test loss of every earlier epoch (an earlier loss that is
  not-a-number never became the best loss and does not count); what is saved is the model
  of that epoch; and the test loss of the epoch is the sum of the losses of the test batches
  divided by their number.  With no test batch the first \<open>test_epoch\<close> raises
  \<open>ZeroDivisionError\<close> before anything is compared or saved.
\<close>

theorem checkpoint_saved_iff_improved:
  "(tst = [] \<and> 0 < n \<longrightarrow>
      train fw (MotionTrainer_init trn tst m) n p = Inl ZeroDivisionError) \<and>
   (tst \<noteq> [] \<or> n \<le> 0 \<longrightarrow>
      (\<exists>t'. train fw (MotionTrainer_init trn tst m) n p = Inr t' \<and>
         (\<forall>i < length (history t').
            test_loss (history t' ! i) = mean_loss fw tst (model_at fw trn m i) \<and>
            (saved (history t' ! i) \<noteq> None \<longleftrightarrow>
               flt (test_loss (history t' ! i)) PInf \<and>
               (\<forall>j < i. test_loss (history t' ! j) \<noteq> NaN \<longrightarrow>
                  flt (test_loss (history t' ! i)) (test_loss (history t' ! j)))) \<and>
            (saved (history t' ! i) = None \<or>
             saved (history t' ! i) = Some (model_at fw trn m i)))))"
proof (intro conjI impI)
  assume "tst = [] \<and> 0 < n"
  then show "train fw (MotionTrainer_init trn tst m) n p = Inl ZeroDivisionError"
    by (simp add: train_empty_test)
next
  assume a: "tst \<noteq> [] \<or> n \<le> 0"
  show "\<exists>t'. train fw (MotionTrainer_init trn tst m) n p = Inr t' \<and>
         (\<forall>i < length (history t').
            test_loss (history t' ! i) = mean_loss fw tst (model_at fw trn m i) \<and>
            (saved (history t' ! i) \<noteq> None \<longleftrightarrow>
               flt (test_loss (history t' ! i)) PInf \<and>
               (\<forall>j < i. test_loss (history t' ! j) \<noteq> NaN \<longrightarrow>
                  flt (test_loss (history t' ! i)) (test_loss (history t' ! j)))) \<and>
            (saved (history t' ! i) = None \<or>
             saved (history t' ! i) = Some (model_at fw trn m i)))"
  proof (cases "tst = []")
    case True
    with a have "n \<le> 0" by simp
    then show ?thesis by (simp add: train_no_epochs MotionTrainer_init_def)
  next
    case False
    from train_fresh_trace [OF False, of fw trn m n p] obtain t' where
      r: "train fw (MotionTrainer_init trn tst m) n p = Inr t'" and
      ok: "trace_ok fw trn tst p (py_range n) m PInf 0 (history t')" by blast
    have "\<forall>i < length (history t').
            test_loss (history t' ! i) = mean_loss fw tst (model_at fw trn m i) \<and>
            (saved (history t' ! i) \<noteq> None \<longleftrightarrow>
               flt (test_loss (history t' ! i)) PInf \<and>
               (\<forall>j < i. test_loss (history t' ! j) \<noteq> NaN \<longrightarrow>
                  flt (test_loss (history t' ! i)) (test_loss (history t' ! j)))) \<and>
            (saved (history t' ! i) = None \<or>
             saved (history t' ! i) = Some (model_at fw trn m i))"
    proof (intro allI impI)
      fix i assume i: "i < length (history t')"
      from trace_step [OF ok i]
      have 1: "test_loss (history t' ! i) = mean_loss fw tst (model_at fw trn m i)"
        and 3: "saved (history t' ! i) = None \<or> saved (history t' ! i) = Some (model_at fw trn m i)"
        by (simp_all add: Let_def model_at_def)
      from trace_saved_iff [OF ok _ i] 1 3
      show "test_loss (history t' ! i) = mean_loss fw tst (model_at fw trn m i) \<and>
            (saved (history t' ! i) \<noteq> None \<longleftrightarrow>
               flt (test_loss (history t' ! i)) PInf \<and>
               (\<forall>j < i. test_loss (history t' ! j) \<noteq> NaN \<longrightarrow>
                  flt (test_loss (history t' ! i)) (test_loss (history t' ! j)))) \<and>
            (saved (history t' ! i) = None \<or>
             saved (history t' ! i) = Some (model_at fw trn m i))"
        by simp
    qed
    with r show ?thesis by blast
  qed
qed

text \<open>The example run: epochs 0 and 1 save, epochs 2 and 3 do not.\<close>

theorem checkpoint_saved_iff_improved_witness:
  "train toy_framework (MotionTrainer_init [0] [1, 3] 0) 10 1 = Inr toy_result \<and>
   length (history toy_result) = 4 \<and>
   test_loss (history toy_result ! 1) = mean_loss toy_framework [1, 3] (model_at toy_framework [0] 0 1) \<and>
   (saved (history toy_result ! 1) \<noteq> None) =
     (flt (test_loss (history toy_result ! 1)) PInf \<and>
      (\<forall>j < 1. test_loss (history toy_result ! j) \<noteq> NaN \<longrightarrow>
         flt (test_loss (history toy_result ! 1)) (test_loss (history toy_result ! j)))) \<and>
   flt (test_loss (history toy_result ! 1)) (test_loss (history toy_result ! 0)) \<and>
   saved (history toy_result ! 1) = Some 2 \<and> saved (history toy_result ! 2) = None"
proof -
  have h: "[1, 3 :: real] \<noteq> [] \<or> (10 :: int) \<le> 0" by simp
  have run: "train toy_framework (MotionTrainer_init [0] [1, 3] 0) 10 1 = Inr toy_result"
    using toy_run by (simp add: toy_trainer_def)
  from checkpoint_saved_iff_improved [of "[1, 3]" 10 toy_framework "[0]" 0 1, THEN conjunct2, rule_format, OF h]
  obtain t' where t': "train toy_framework (MotionTrainer_init [0] [1, 3] 0) 10 1 = Inr t'"
    and all: "\<forall>i < length (history t').
            test_loss (history t' ! i) = mean_loss toy_framework [1, 3] (model_at toy_framework [0] 0 i) \<and>
            (saved (history t' ! i) \<noteq> None \<longleftrightarrow>
               flt (test_loss (history t' ! i)) PInf \<and>
               (\<forall>j < i. test_loss (history t' ! j) \<noteq> NaN \<longrightarrow>
                  flt (test_loss (history t' ! i)) (test_loss (history t' ! j)))) \<and>
            (saved (history t' ! i) = None \<or>
             saved (history t' ! i) = Some (model_at toy_framework [0] 0 i))"
    by blast
  from t' run have eq: "t' = toy_result" by simp
  have len: "length (history toy_result) = 4" by (simp add: toy_result_def)
  have s: "saved (history toy_result ! 1) = Some 2 \<and> saved (history toy_result ! 2) = None \<and>
      flt (test_loss (history toy_result ! 1)) (test_loss (history toy_result ! 0))"
    by (simp add: toy_result_def)
  have "(1 :: nat) < length (history t')" using eq len by simp
  with all have "test_loss (history t' ! 1) = mean_loss toy_framework [1, 3] (model_at toy_framework [0] 0 1) \<and>
            (saved (history t' ! 1) \<noteq> None \<longleftrightarrow>
               flt (test_loss (history t' ! 1)) PInf \<and>
               (\<forall>j < 1. test_loss (history t' ! j) \<noteq> NaN \<longrightarrow>
                  flt (test_loss (history t' ! 1)) (test_loss (history t' ! j))))"
    by blast
  then have "test_loss (history toy_result ! 1) = mean_loss toy_framework [1, 3] (model_at toy_framework [0] 0 1) \<and>
            (saved (history toy_result ! 1) \<noteq> None) =
              (flt (test_loss (history toy_result ! 1)) PInf \<and>
               (\<forall>j < 1. test_loss (history toy_result ! j) \<noteq> NaN \<longrightarrow>
                  flt (test_loss (history toy_result ! 1)) (test_loss (history toy_result ! j))))"
    unfolding eq .
  with len run s show ?thesis by blast
qed

lemma take_py_range: "k \<le> nat n \<Longrightarrow> take k (py_range n) = map int [0 ..< k]"
  by (simp add: py_range_def take_map min_def)

text \<open>
  Claim C2, as amended.  With at least one test batch, \<open>train\<close> on a freshly
  constructed trainer returns, having run the epochs \<open>0, 1, ..., k - 1\<close> for some \<open>k\<close>
  that is at most \<open>max(num_epoches, 0)\<close>; when
  \<open>patience\<close> is at least \<open>-1\<close>, no epoch that is run has an index greater than
  \<open>best_epoch + patience + 1\<close> (with \<open>best_epoch\<close> read at the start of the epoch, and
  also read at its end); an epoch whose index exceeds \<open>best_epoch + patience\<close> at its end
  is the last one run; and when no epoch does, all \<open>max(num_epoches, 0)\<close> epochs are run.
\<close>

theorem early_stopping_by_patience:
  assumes "tst \<noteq> []"
  shows "\<exists>t'. train fw (MotionTrainer_init trn tst m) n p = Inr t' \<and>
     length (history t') \<le> nat n \<and>
     map epoch (history t') = map int [0 ..< length (history t')] \<and>
     (- 1 \<le> p \<longrightarrow>
        (\<forall>i < length (history t').
           int i \<le> (if i = 0 then 0 else best_epoch_after (history t' ! (i - 1))) + p + 1 \<and>
           int i \<le> best_epoch_after (history t' ! i) + p + 1)) \<and>
     (\<forall>i < length (history t').
        int i > best_epoch_after (history t' ! i) + p \<longrightarrow> Suc i = length (history t')) \<and>
     ((\<forall>i < length (history t'). \<not> int i > best_epoch_after (history t' ! i) + p) \<longrightarrow>
        length (history t') = nat n)"
proof -
  from train_fresh_trace [OF assms, of fw trn m n p] obtain t' where
    r: "train fw (MotionTrainer_init trn tst m) n p = Inr t'" and
    ok: "trace_ok fw trn tst p (py_range n) m PInf 0 (history t')" by blast
  let ?h = "history t'"
  from trace_epochs [OF ok] have len: "length ?h \<le> nat n"
    and eps: "map epoch ?h = take (length ?h) (py_range n)" by simp_all
  from eps len have eps': "map epoch ?h = map int [0 ..< length ?h]"
    by (simp add: take_py_range)
  have ep: "epoch (?h ! i) = int i" if "i < length ?h" for i
  proof -
    have "epoch (?h ! i) = map epoch ?h ! i" using that by simp
    also have "\<dots> = int i" unfolding eps' using that by simp
    finally show ?thesis .
  qed
  have brk: "\<forall>i < length ?h. int i > best_epoch_after (?h ! i) + p \<longrightarrow> Suc i = length ?h"
  proof (intro allI impI)
    fix i assume i: "i < length ?h" and "int i > best_epoch_after (?h ! i) + p"
    then have "epoch (?h ! i) - best_epoch_after (?h ! i) > p" using ep [OF i] by simp
    from trace_break [OF ok i this] show "Suc i = length ?h" .
  qed
  have full: "(\<forall>i < length ?h. \<not> int i > best_epoch_after (?h ! i) + p) \<longrightarrow> length ?h = nat n"
  proof
    assume a: "\<forall>i < length ?h. \<not> int i > best_epoch_after (?h ! i) + p"
    have "\<forall>i < length ?h. \<not> epoch (?h ! i) - best_epoch_after (?h ! i) > p"
    proof (intro allI impI)
      fix i assume i: "i < length ?h"
      with a ep [OF i] show "\<not> epoch (?h ! i) - best_epoch_after (?h ! i) > p" by auto
    qed
    from trace_full [OF ok this] show "length ?h = nat n" by simp
  qed
  have bound: "- 1 \<le> p \<longrightarrow> (\<forall>i < length ?h.
           int i \<le> (if i = 0 then 0 else best_epoch_after (?h ! (i - 1))) + p + 1 \<and>
           int i \<le> best_epoch_after (?h ! i) + p + 1)"
  proof (intro allI impI)
    fix i assume p: "- 1 \<le> p" and i: "i < length ?h"
    let ?be0 = "if i = 0 then 0 else best_epoch_after (?h ! (i - 1))"
    have 1: "int i \<le> ?be0 + p + 1"
    proof (cases i)
      case 0
      with p show ?thesis by simp
    next
      case (Suc k)
      with i have k: "k < length ?h" and nl: "Suc k \<noteq> length ?h" by simp_all
      from brk k nl have "\<not> int k > best_epoch_after (?h ! k) + p" by blast
      with Suc show ?thesis by simp
    qed
    from trace_step [OF ok i]
    have "best_epoch_after (?h ! i) = py_range n ! i \<or> best_epoch_after (?h ! i) = ?be0"
      by (auto simp: Let_def)
    moreover have "py_range n ! i = int i" using i len by (simp add: py_range_nth)
    moreover have "?be0 \<le> int i"
    proof (cases i)
      case 0
      then show ?thesis by simp
    next
      case (Suc k)
      with i have k: "k < length ?h" by simp
      from trace_best_epoch_range [OF ok k] Suc show ?thesis by simp
    qed
    ultimately have "?be0 \<le> best_epoch_after (?h ! i)" by auto
    with 1 show "int i \<le> ?be0 + p + 1 \<and> int i \<le> best_epoch_after (?h ! i) + p + 1"
      by linarith
  qed
  from r len eps' bound brk full show ?thesis by blast
qed

text \<open>The example run with \<open>patience = 1\<close>: epoch 3 exceeds \<open>best_epoch + patience = 2\<close> and is the last.\<close>

theorem early_stopping_by_patience_witness:
  "[1, 3 :: real] \<noteq> [] \<and>
   train toy_framework (MotionTrainer_init [0] [1, 3] 0) 10 1 = Inr toy_result \<and>
   length (history toy_result) = 4 \<and>
   map epoch (history toy_result) = [0, 1, 2, 3] \<and>
   - 1 \<le> (1 :: int) \<and>
   int 3 \<le> best_epoch_after (history toy_result ! 2) + 1 + 1 \<and>
   int 3 \<le> best_epoch_after (history toy_result ! 3) + 1 + 1 \<and>
   int 3 > best_epoch_after (history toy_result ! 3) + 1 \<and>
   Suc 3 = length (history toy_result)"
proof -
  have h: "[1, 3 :: real] \<noteq> []" by simp
  have run: "train toy_framework (MotionTrainer_init [0] [1, 3] 0) 10 1 = Inr toy_result"
    using toy_run by (simp add: toy_trainer_def)
  have len: "length (history toy_result) = 4" by (simp add: toy_result_def)
  have p: "- 1 \<le> (1 :: int)" by simp
  from early_stopping_by_patience [OF h, of toy_framework "[0]" 0 10 1]
  have "length (history toy_result) \<le> nat 10 \<and>
     map epoch (history toy_result) = map int [0 ..< length (history toy_result)] \<and>
     (- 1 \<le> (1 :: int) \<longrightarrow>
        (\<forall>i < length (history toy_result).
           int i \<le> (if i = 0 then 0 else best_epoch_after (history toy_result ! (i - 1))) + 1 + 1 \<and>
           int i \<le> best_epoch_after (history toy_result ! i) + 1 + 1)) \<and>
     (\<forall>i < length (history toy_result).
        int i > best_epoch_after (history toy_result ! i) + 1 \<longrightarrow> Suc i = length (history toy_result)) \<and>
     ((\<forall>i < length (history toy_result). \<not> int i > best_epoch_after (history toy_result ! i) + 1) \<longrightarrow>
        length (history toy_result) = nat 10)"
    unfolding run by simp
  then have a: "map epoch (history toy_result) = map int [0 ..< 4]"
    and b: "\<forall>i < 4. int i \<le> (if i = 0 then 0 else best_epoch_after (history toy_result ! (i - 1))) + 1 + 1 \<and>
           int i \<le> best_epoch_after (history toy_result ! i) + 1 + 1"
    and c: "\<forall>i < 4. int i > best_epoch_after (history toy_result ! i) + 1 \<longrightarrow> Suc i = 4"
    using p unfolding len by blast+
  have d: "int 3 > best_epoch_after (history toy_result ! 3) + 1" by (simp add: toy_result_def)
  have e: "map int [0 ..< 4] = [0, 1, 2, 3]" by (simp add: upt_rec)
  from b [rule_format, of 3] have b3: "int 3 \<le> best_epoch_after (history toy_result ! 2) + 1 + 1 \<and>
       int 3 \<le> best_epoch_after (history toy_result ! 3) + 1 + 1"
    by simp
  from c [rule_format, of 3] d have c3: "Suc 3 = length (history toy_result)" unfolding len by simp
  from a e have a': "map epoch (history toy_result) = [0, 1, 2, 3]" by simp
  from h run len a' b3 c3 d p show ?thesis by blast
qed

text \<open>
  The claim as first worded fails for \<open>patience = -2\<close>: epoch 0 is run although
  \<open>best_epoch + patience + 1 = -1\<close>.  It also fails with no test batch: the run neither
  exits by patience nor completes an epoch, the first \<open>test_epoch\<close> raises.
\<close>

theorem early_stopping_by_patience_counterexample:
  "train toy_framework (MotionTrainer_init [0] [1, 3] 0) 1 (- 2) = Inr toy_result_negative \<and>
   map epoch (history toy_result_negative) = [0] \<and>
   best_epoch toy_result_negative = 0 \<and>
   (0 :: int) > best_epoch toy_result_negative + (- 2) + 1 \<and>
   train toy_framework (MotionTrainer_init [0] [] 0) 1 0 = Inl ZeroDivisionError"
proof -
  have "train toy_framework (MotionTrainer_init [0] [1, 3] 0) 1 (- 2) = Inr toy_result_negative"
    using toy_run_negative by (simp add: toy_trainer_def)
  moreover have "train toy_framework (MotionTrainer_init [0] [] 0) 1 0 = Inl ZeroDivisionError"
    by (simp add: train_empty_test)
  ultimately show ?thesis by (simp add: toy_result_negative_def)
qed

text \<open>
  Claim C10, as amended.  With at least one test batch, after every epoch of a run of
  \<open>train\<close> on a freshly constructed trainer: \<open>best_loss\<close> is not greater than it was
  before the epoch (\<open>math.inf\<close> before the first), it is the least of \<open>math.inf\<close> and the
  test losses seen so far that are numbers, and, unless the first test loss is
  not-a-number and no loss below \<open>math.inf\<close> has been seen, \<open>best_epoch\<close> is the index of
  the earliest epoch whose test loss equals \<open>best_loss\<close>; as long as \<open>best_loss\<close> is
  \<open>math.inf\<close>, \<open>best_epoch\<close> keeps its initial value 0.  At the end of the run the two
  attributes are those written by the last pass.
\<close>

theorem best_loss_running_minimum:
  assumes "tst \<noteq> []"
  shows "\<exists>t'. train fw (MotionTrainer_init trn tst m) n p = Inr t' \<and>
     best_loss t' = (if history t' = [] then PInf else best_loss_after (last (history t'))) \<and>
     best_epoch t' = (if history t' = [] then 0 else best_epoch_after (last (history t'))) \<and>
     (\<forall>i < length (history t').
        fle (best_loss_after (history t' ! i))
            (if i = 0 then PInf else best_loss_after (history t' ! (i - 1))) \<and>
        fle (best_loss_after (history t' ! i)) PInf \<and>
        (\<forall>j \<le> i. test_loss (history t' ! j) \<noteq> NaN \<longrightarrow>
           fle (best_loss_after (history t' ! i)) (test_loss (history t' ! j))) \<and>
        (best_loss_after (history t' ! i) = PInf \<or>
         (\<exists>j \<le> i. best_loss_after (history t' ! i) = test_loss (history t' ! j))) \<and>
        (test_loss (history t' ! 0) \<noteq> NaN \<or> best_loss_after (history t' ! i) \<noteq> PInf \<longrightarrow>
           0 \<le> best_epoch_after (history t' ! i) \<and>
           nat (best_epoch_after (history t' ! i)) \<le> i \<and>
           test_loss (history t' ! nat (best_epoch_after (history t' ! i))) =
             best_loss_after (history t' ! i) \<and>
           (\<forall>j < nat (best_epoch_after (history t' ! i)).
              test_loss (history t' ! j) \<noteq> best_loss_after (history t' ! i))) \<and>
        (best_loss_after (history t' ! i) = PInf \<longrightarrow> best_epoch_after (history t' ! i) = 0))"
proof -
  from train_fresh_trace [OF assms, of fw trn m n p] obtain t' where
    r: "train fw (MotionTrainer_init trn tst m) n p = Inr t'" and
    ok: "trace_ok fw trn tst p (py_range n) m PInf 0 (history t')" and
    fin: "best_loss t' = (if history t' = [] then PInf else best_loss_after (last (history t')))"
         "best_epoch t' = (if history t' = [] then 0 else best_epoch_after (last (history t')))"
    by blast
  let ?h = "history t'"
  have "\<forall>i < length ?h.
        fle (best_loss_after (?h ! i)) (if i = 0 then PInf else best_loss_after (?h ! (i - 1))) \<and>
        fle (best_loss_after (?h ! i)) PInf \<and>
        (\<forall>j \<le> i. test_loss (?h ! j) \<noteq> NaN \<longrightarrow> fle (best_loss_after (?h ! i)) (test_loss (?h ! j))) \<and>
        (best_loss_after (?h ! i) = PInf \<or> (\<exists>j \<le> i. best_loss_after (?h ! i) = test_loss (?h ! j))) \<and>
        (test_loss (?h ! 0) \<noteq> NaN \<or> best_loss_after (?h ! i) \<noteq> PInf \<longrightarrow>
           0 \<le> best_epoch_after (?h ! i) \<and>
           nat (best_epoch_after (?h ! i)) \<le> i \<and>
           test_loss (?h ! nat (best_epoch_after (?h ! i))) = best_loss_after (?h ! i) \<and>
           (\<forall>j < nat (best_epoch_after (?h ! i)). test_loss (?h ! j) \<noteq> best_loss_after (?h ! i))) \<and>
        (best_loss_after (?h ! i) = PInf \<longrightarrow> best_epoch_after (?h ! i) = 0)"
  proof (intro allI impI)
    fix i assume i: "i < length ?h"
    let ?B = "best_loss_after (?h ! i)"
    let ?E = "best_epoch_after (?h ! i)"
    have 1: "fle ?B (if i = 0 then PInf else best_loss_after (?h ! (i - 1)))"
      using trace_nonincreasing [OF ok _ i] by simp
    from trace_best_loss [OF ok _ i]
    have 2: "fle ?B PInf"
      and 3: "\<forall>j \<le> i. test_loss (?h ! j) \<noteq> NaN \<longrightarrow> fle ?B (test_loss (?h ! j))"
      and 4: "?B = PInf \<or> (\<exists>j \<le> i. ?B = test_loss (?h ! j))"
      by simp_all
    have 5: "test_loss (?h ! 0) \<noteq> NaN \<or> ?B \<noteq> PInf \<longrightarrow>
           0 \<le> ?E \<and> nat ?E \<le> i \<and> test_loss (?h ! nat ?E) = ?B \<and>
           (\<forall>j < nat ?E. test_loss (?h ! j) \<noteq> ?B)"
    proof
      assume hyp: "test_loss (?h ! 0) \<noteq> NaN \<or> ?B \<noteq> PInf"
      from trace_best_epoch [OF ok i]
      show "0 \<le> ?E \<and> nat ?E \<le> i \<and> test_loss (?h ! nat ?E) = ?B \<and>
           (\<forall>j < nat ?E. test_loss (?h ! j) \<noteq> ?B)"
      proof
        assume a: "?B = PInf \<and> ?E = 0 \<and> (\<forall>j \<le> i. \<not> flt (test_loss (?h ! j)) PInf)"
        with hyp have "test_loss (?h ! 0) \<noteq> NaN" by simp
        moreover from a have "\<not> flt (test_loss (?h ! 0)) PInf" by simp
        ultimately have "test_loss (?h ! 0) = PInf" by (simp add: flt_PInf_iff)
        with a show ?thesis by simp
      next
        assume "\<exists>k \<le> i. ?E = int k \<and> test_loss (?h ! k) = ?B \<and> saved (?h ! k) \<noteq> None \<and>
           (\<forall>j < k. test_loss (?h ! j) \<noteq> ?B)"
        then show ?thesis by auto
      qed
    qed
    have 6: "?B = PInf \<longrightarrow> ?E = 0"
    proof
      assume inf: "?B = PInf"
      from trace_best_epoch [OF ok i] show "?E = 0"
      proof
        assume "?B = PInf \<and> ?E = 0 \<and> (\<forall>j \<le> i. \<not> flt (test_loss (?h ! j)) PInf)"
        then show ?thesis by simp
      next
        assume "\<exists>k \<le> i. ?E = int k \<and> test_loss (?h ! k) = ?B \<and> saved (?h ! k) \<noteq> None \<and>
           (\<forall>j < k. test_loss (?h ! j) \<noteq> ?B)"
        then obtain k where k: "k \<le> i" "test_loss (?h ! k) = ?B" "saved (?h ! k) \<noteq> None"
          by blast
        from k(1) i have "k < length ?h" by simp
        from trace_saved_iff [OF ok _ this] k(3) have "flt (test_loss (?h ! k)) PInf" by simp
        with k(2) inf show ?thesis by simp
      qed
    qed
    from 1 2 3 4 5 6
    show "fle ?B (if i = 0 then PInf else best_loss_after (?h ! (i - 1))) \<and>
        fle ?B PInf \<and>
        (\<forall>j \<le> i. test_loss (?h ! j) \<noteq> NaN \<longrightarrow> fle ?B (test_loss (?h ! j))) \<and>
        (?B = PInf \<or> (\<exists>j \<le> i. ?B = test_loss (?h ! j))) \<and>
        (test_loss (?h ! 0) \<noteq> NaN \<or> ?B \<noteq> PInf \<longrightarrow>
           0 \<le> ?E \<and> nat ?E \<le> i \<and> test_loss (?h ! nat ?E) = ?B \<and>
           (\<forall>j < nat ?E. test_loss (?h ! j) \<noteq> ?B)) \<and>
        (?B = PInf \<longrightarrow> ?E = 0)"
      by blast
  qed
  with r fin show ?thesis by blast
qed

text \<open>The example run: the best loss is 3 after epoch 0 and 2 from epoch 1 on.\<close>

theorem best_loss_running_minimum_witness:
  "[1, 3 :: real] \<noteq> [] \<and>
   train toy_framework (MotionTrainer_init [0] [1, 3] 0) 10 1 = Inr toy_result \<and>
   length (history toy_result) = 4 \<and>
   test_loss (history toy_result ! 0) \<noteq> NaN \<and>
   best_loss toy_result = best_loss_after (last (history toy_result)) \<and>
   fle (best_loss_after (history toy_result ! 3)) (best_loss_after (history toy_result ! 2)) \<and>
   fle (best_loss_after (history toy_result ! 3)) (test_loss (history toy_result ! 0)) \<and>
   fle (best_loss_after (history toy_result ! 3)) (test_loss (history toy_result ! 3)) \<and>
   best_epoch_after (history toy_result ! 3) = 1 \<and>
   test_loss (history toy_result ! 1) = best_loss_after (history toy_result ! 3) \<and>
   test_loss (history toy_result ! 0) \<noteq> best_loss_after (history toy_result ! 3)"
proof -
  have h: "[1, 3 :: real] \<noteq> []" by simp
  have run: "train toy_framework (MotionTrainer_init [0] [1, 3] 0) 10 1 = Inr toy_result"
    using toy_run by (simp add: toy_trainer_def)
  have len: "length (history toy_result) = 4" by (simp add: toy_result_def)
  have ne: "history toy_result \<noteq> []" by (simp add: toy_result_def)
  have l0: "test_loss (history toy_result ! 0) \<noteq> NaN" by (simp add: toy_result_def)
  from best_loss_running_minimum [OF h, of toy_framework "[0]" 0 10 1]
  have "best_loss toy_result = (if history toy_result = [] then PInf else best_loss_after (last (history toy_result))) \<and>
     best_epoch toy_result = (if history toy_result = [] then 0 else best_epoch_after (last (history toy_result))) \<and>
     (\<forall>i < length (history toy_result).
        fle (best_loss_after (history toy_result ! i))
            (if i = 0 then PInf else best_loss_after (history toy_result ! (i - 1))) \<and>
        fle (best_loss_after (history toy_result ! i)) PInf \<and>
        (\<forall>j \<le> i. test_loss (history toy_result ! j) \<noteq> NaN \<longrightarrow>
           fle (best_loss_after (history toy_result ! i)) (test_loss (history toy_result ! j))) \<and>
        (best_loss_after (history toy_result ! i) = PInf \<or>
         (\<exists>j \<le> i. best_loss_after (history toy_result ! i) = test_loss (history toy_result ! j))) \<and>
        (test_loss (history toy_result ! 0) \<noteq> NaN \<or> best_loss_after (history toy_result ! i) \<noteq> PInf \<longrightarrow>
           0 \<le> best_epoch_after (history toy_result ! i) \<and>
           nat (best_epoch_after (history toy_result ! i)) \<le> i \<and>
           test_loss (history toy_result ! nat (best_epoch_after (history toy_result ! i))) =
             best_loss_after (history toy_result ! i) \<and>
           (\<forall>j < nat (best_epoch_after (history toy_result ! i)).
              test_loss (history toy_result ! j) \<noteq> best_loss_after (history toy_result ! i))) \<and>
        (best_loss_after (history toy_result ! i) = PInf \<longrightarrow> best_epoch_after (history toy_result ! i) = 0))"
    unfolding run by simp
  then have a: "best_loss toy_result = best_loss_after (last (history toy_result))"
    and b: "\<forall>i < 4. \<forall>j \<le> i. test_loss (history toy_result ! j) \<noteq> NaN \<longrightarrow>
      fle (best_loss_after (history toy_result ! i)) (test_loss (history toy_result ! j))"
    and c: "\<forall>i < 4. test_loss (history toy_result ! nat (best_epoch_after (history toy_result ! i))) =
      best_loss_after (history toy_result ! i) \<and>
      (\<forall>j < nat (best_epoch_after (history toy_result ! i)).
              test_loss (history toy_result ! j) \<noteq> best_loss_after (history toy_result ! i))"
    and d: "\<forall>i < 4. fle (best_loss_after (history toy_result ! i))
            (if i = 0 then PInf else best_loss_after (history toy_result ! (i - 1)))"
    using ne l0 unfolding len by simp_all
  have e: "best_epoch_after (history toy_result ! 3) = 1"
    and nn: "test_loss (history toy_result ! 0) \<noteq> NaN" "test_loss (history toy_result ! 3) \<noteq> NaN"
    by (simp_all add: toy_result_def)
  from b [rule_format, of 3 0] nn
  have b0: "fle (best_loss_after (history toy_result ! 3)) (test_loss (history toy_result ! 0))"
    by simp
  from b [rule_format, of 3 3] nn
  have b3: "fle (best_loss_after (history toy_result ! 3)) (test_loss (history toy_result ! 3))"
    by simp
  have n1: "nat (best_epoch_after (history toy_result ! 3)) = 1" unfolding e by simp
  from c [rule_format, of 3]
  have c1: "test_loss (history toy_result ! 1) = best_loss_after (history toy_result ! 3)"
    and c2: "\<forall>j < 1. test_loss (history toy_result ! j) \<noteq> best_loss_after (history toy_result ! 3)"
    unfolding n1 by simp_all
  from c2 have c0: "test_loss (history toy_result ! 0) \<noteq> best_loss_after (history toy_result ! 3)"
    by simp
  from d [rule_format, of 3]
  have d3: "fle (best_loss_after (history toy_result ! 3)) (best_loss_after (history toy_result ! 2))"
    by simp
  from h run len l0 a b0 b3 c1 c0 d3 e show ?thesis by blast
qed

text \<open>
  The claim as first worded fails when the first test loss is not-a-number: after the
  epoch \<open>best_epoch\<close> is 0 and \<open>best_loss\<close> is \<open>math.inf\<close>, which is not the loss of epoch 0.
\<close>

theorem best_loss_running_minimum_counterexample:
  "train nan_framework (MotionTrainer_init [()] [()] ()) 1 0 = Inr nan_result \<and>
   map test_loss (history nan_result) = [NaN] \<and>
   best_loss nan_result = PInf \<and>
   best_epoch nan_result = 0 \<and>
   test_loss (history nan_result ! nat (best_epoch nan_result)) \<noteq> best_loss nan_result"
  using nan_run by (simp add: nan_result_def)

section \<open>Properties of the losses and optimizers of the systems\<close>

lemma fmul_commute: "fmul a b = fmul b a"
  by (cases a; cases b) simp_all

lemma isfinite_iff: "isfinite a \<longleftrightarrow> (\<exists>r. a = Fin r)"
  by (cases a) simp_all

lemma fdiv_zero_not_finite: "\<not> isfinite (fdiv a 0)"
  by (cases a) simp_all

lemma fmul_not_finite: "\<not> isfinite a \<Longrightarrow> \<not> isfinite (fmul a b)"
  by (cases a; cases b) simp_all

lemma fadd_not_finite: "\<not> isfinite b \<Longrightarrow> \<not> isfinite (fadd a b)"
  by (cases a; cases b) simp_all

lemma map2_minus_nth:
  "length r = n \<Longrightarrow> length s = n \<Longrightarrow> map2 (\<lambda>u v. u - v) r s = map (\<lambda>j. r ! j - s ! j) [0 ..< n]"
  by (rule nth_equalityI) simp_all

text \<open>The slices of the code give the consecutive-row differences.\<close>

lemma slices_consecutive_differences:
  assumes "rectangular p"
  shows "tsub (from_1 p) (upto_last p) = consecutive_differences p"
proof (rule nth_equalityI)
  show "length (tsub (from_1 p) (upto_last p)) = length (consecutive_differences p)"
    by (simp add: tsub_def from_1_def upto_last_def consecutive_differences_def)
next
  fix i assume "i < length (tsub (from_1 p) (upto_last p))"
  then have i: "i < length p - 1"
    by (simp add: tsub_def from_1_def upto_last_def)
  then have "p ! Suc i \<in> set p" "p ! i \<in> set p" by simp_all
  with assms have len: "length (p ! Suc i) = length (hd p)" "length (p ! i) = length (hd p)"
    by (simp_all add: rectangular_def)
  have "tsub (from_1 p) (upto_last p) ! i = map2 (\<lambda>u v. u - v) (p ! Suc i) (p ! i)"
    using i by (simp add: tsub_def from_1_def upto_last_def)
  also have "\<dots> = map (\<lambda>j. p ! Suc i ! j - p ! i ! j) [0 ..< length (hd p)]"
    using len by (rule map2_minus_nth)
  also have "\<dots> = consecutive_differences p ! i"
    using i by (simp add: consecutive_differences_def)
  finally show "tsub (from_1 p) (upto_last p) ! i = consecutive_differences p ! i" .
qed

lemma sample_poses_differences: "consecutive_differences sample_poses = [[3, 4]]"
  by (simp add: consecutive_differences_def sample_poses_def)

lemma sample_norm: "torch_norm sample_lib [[3, 4]] = Fin 5"
proof -
  have "sqrt 25 = 5" by (rule real_sqrt_unique) simp_all
  then show ?thesis by (simp add: sample_lib_def)
qed

lemma sample_mse: "MSELoss sample_lib sample_poses sample_targets = Fin 1"
  by (simp add: sample_lib_def mean_of_def tsub_def sample_poses_def sample_targets_def)

text \<open>
  Claim C3.  For a rectangular prediction \<open>p\<close> (with at least two rows or not) and any
  target \<open>y\<close>, \<open>calculate_loss(p, y)\<close> of a freshly constructed \<open>Seq2SeqSystem\<close> and of a
  freshly constructed \<open>AdversarialSeq2SeqSystem\<close> is \<open>MSELoss(p, y)\<close> plus 0.01 times the
  norm of the consecutive-row differences of \<open>p\<close> divided by \<open>p.size(0) - 1\<close>; when \<open>p\<close>
  has at least two rows and the two library values are finite numbers \<open>a\<close> and \<open>b\<close>, this
  is the number \<open>a + 0.01 * (b / (p.size(0) - 1))\<close>.
\<close>

theorem calculate_loss_composition:
  assumes "rectangular p"
  shows "calculate_loss lib (Seq2SeqSystem_init lib enc dec trd ted np nq) p y =
           fadd (MSELoss lib p y)
             (fmul (Fin 0.01) (fdiv (torch_norm lib (consecutive_differences p)) (int (length p) - 1))) \<and>
         adv_calculate_loss lib (AdversarialSeq2SeqSystem_init lib enc' dec' disc trd' ted' np' nq') p y =
           fadd (MSELoss lib p y)
             (fmul (Fin 0.01) (fdiv (torch_norm lib (consecutive_differences p)) (int (length p) - 1))) \<and>
         (2 \<le> length p \<and> MSELoss lib p y = Fin a \<and> torch_norm lib (consecutive_differences p) = Fin b \<longrightarrow>
            calculate_loss lib (Seq2SeqSystem_init lib enc dec trd ted np nq) p y =
              Fin (a + 0.01 * (b / (real (length p) - 1))) \<and>
            adv_calculate_loss lib (AdversarialSeq2SeqSystem_init lib enc' dec' disc trd' ted' np' nq') p y =
              Fin (a + 0.01 * (b / (real (length p) - 1))))"
proof -
  let ?rhs = "fadd (MSELoss lib p y)
             (fmul (Fin 0.01) (fdiv (torch_norm lib (consecutive_differences p)) (int (length p) - 1)))"
  have c: "cont_loss lib p = fdiv (torch_norm lib (consecutive_differences p)) (int (length p) - 1)"
    by (simp add: cont_loss_def slices_consecutive_differences [OF assms])
  note fc = fmul_commute [of "fdiv (torch_norm lib (consecutive_differences p)) (int (length p) - 1)"]
  have 1: "calculate_loss lib (Seq2SeqSystem_init lib enc dec trd ted np nq) p y = ?rhs"
    by (simp add: calculate_loss_def Seq2SeqSystem_init_def c fc)
  have 2: "adv_calculate_loss lib (AdversarialSeq2SeqSystem_init lib enc' dec' disc trd' ted' np' nq') p y = ?rhs"
    by (simp add: adv_calculate_loss_def AdversarialSeq2SeqSystem_init_def c fc)
  have 3: "?rhs = Fin (a + 0.01 * (b / (real (length p) - 1)))"
    if "2 \<le> length p" "MSELoss lib p y = Fin a" "torch_norm lib (consecutive_differences p) = Fin b"
  proof -
    from that(1) have nz: "int (length p) - 1 \<noteq> 0" by simp
    have e: "real_of_int (int (length p) - 1) = real (length p) - 1" by simp
    have "fdiv (Fin b) (int (length p) - 1) = Fin (b / real_of_int (int (length p) - 1))"
      using nz by (simp only: fdiv.simps if_False)
    then have "fdiv (Fin b) (int (length p) - 1) = Fin (b / (real (length p) - 1))"
      by (simp only: e)
    then show ?thesis by (simp only: that(2,3) fmul.simps fadd.simps)
  qed
  from 1 2 3 show ?thesis by simp
qed

text \<open>Two poses \<open>(0, 0)\<close> and \<open>(3, 4)\<close>: the differences have norm 5, the loss is \<open>1 + 0.01 * 5\<close>.\<close>

theorem calculate_loss_composition_witness:
  "rectangular sample_poses \<and> 2 \<le> length sample_poses \<and>
   MSELoss sample_lib sample_poses sample_targets = Fin 1 \<and>
   torch_norm sample_lib (consecutive_differences sample_poses) = Fin 5 \<and>
   calculate_loss sample_lib
     (Seq2SeqSystem_init sample_lib sample_encoder sample_decoder ''train'' ''test'' 20 10)
     sample_poses sample_targets = Fin 1.05 \<and>
   adv_calculate_loss sample_lib
     (AdversarialSeq2SeqSystem_init sample_lib sample_encoder sample_decoder sample_discriminator
        ''train'' ''test'' 20 10)
     sample_poses sample_targets = Fin 1.05"
proof -
  have r: "rectangular sample_poses" by (simp add: rectangular_def sample_poses_def)
  have l: "2 \<le> length sample_poses" "length sample_poses = 2" by (simp_all add: sample_poses_def)
  have n: "torch_norm sample_lib (consecutive_differences sample_poses) = Fin 5"
    by (simp only: sample_poses_differences sample_norm)
  from calculate_loss_composition [OF r, of sample_lib sample_encoder sample_decoder
      "''train''" "''test''" 20 10 sample_targets sample_encoder sample_decoder sample_discriminator
      "''train''" "''test''" 20 10 1 5] l sample_mse n
  have "calculate_loss sample_lib
     (Seq2SeqSystem_init sample_lib sample_encoder sample_decoder ''train'' ''test'' 20 10)
     sample_poses sample_targets = Fin (1 + 0.01 * (5 / (real 2 - 1))) \<and>
   adv_calculate_loss sample_lib
     (AdversarialSeq2SeqSystem_init sample_lib sample_encoder sample_decoder sample_discriminator
        ''train'' ''test'' 20 10)
     sample_poses sample_targets = Fin (1 + 0.01 * (5 / (real 2 - 1)))"
    by simp
  moreover have "(1 :: real) + 0.01 * (5 / (real 2 - 1)) = 1.05" by simp
  ultimately show ?thesis using r l sample_mse n by simp
qed

lemma slices_single_row: "length p = 1 \<Longrightarrow> tsub (from_1 p) (upto_last p) = []"
  by (simp add: tsub_def from_1_def upto_last_def)

lemma cont_loss_single_row: "length p = 1 \<Longrightarrow> \<not> isfinite (cont_loss lib p)"
  by (simp add: cont_loss_def fdiv_zero_not_finite)

lemma fdiv_nonzero: "n \<noteq> 0 \<Longrightarrow> fdiv (Fin b) n = Fin (b / real_of_int n)"
  by simp

text \<open>
  Claim C9.  The divisor \<open>p.size(0) - 1\<close> of the continuity term is zero exactly when
  \<open>p\<close> has a single row.  Then the term is not a finite number (it is not-a-number when
  the norm of the empty tensor is 0), and neither is the loss of either class.  When \<open>p\<close>
  has at least two rows the divisor is at least 1, and with finite values \<open>a\<close> of the
  base loss and \<open>b\<close> of the norm both losses are the finite numbers
  \<open>a + b / (p.size(0) - 1) * w\<close>, with \<open>w = 0.01\<close> in the first class and
  \<open>w = hparams.w_cont_loss\<close> in the second.
\<close>

theorem continuity_term_division:
  "(int (length p) - 1 = 0 \<longleftrightarrow> length p = 1) \<and>
   (length p = 1 \<longrightarrow>
      \<not> isfinite (cont_loss lib p) \<and>
      (torch_norm lib [] = Fin 0 \<longrightarrow> cont_loss lib p = NaN) \<and>
      \<not> isfinite (calculate_loss lib s p y) \<and>
      \<not> isfinite (adv_calculate_loss lib s' p y)) \<and>
   (2 \<le> length p \<longrightarrow>
      1 \<le> int (length p) - 1 \<and>
      (loss s p y = Fin a \<and> torch_norm lib (tsub (from_1 p) (upto_last p)) = Fin b \<longrightarrow>
         calculate_loss lib s p y = Fin (a + b / (real (length p) - 1) * 0.01)) \<and>
      (base_loss s' p y = Fin a \<and> torch_norm lib (tsub (from_1 p) (upto_last p)) = Fin b \<longrightarrow>
         adv_calculate_loss lib s' p y = Fin (a + b / (real (length p) - 1) * w_cont_loss (hparams s'))))"
proof (intro conjI impI)
  show "int (length p) - 1 = 0 \<longleftrightarrow> length p = 1" by auto
next
  assume "length p = 1"
  then show "\<not> isfinite (cont_loss lib p)" by (rule cont_loss_single_row)
next
  assume "length p = 1" "torch_norm lib [] = Fin 0"
  then show "cont_loss lib p = NaN"
    by (simp add: cont_loss_def slices_single_row)
next
  assume "length p = 1"
  then have "\<not> isfinite (cont_loss lib p)" by (rule cont_loss_single_row)
  then have "\<not> isfinite (fmul (cont_loss lib p) (Fin 0.01))" by (rule fmul_not_finite)
  then have "\<not> isfinite (fadd (loss s p y) (fmul (cont_loss lib p) (Fin 0.01)))"
    by (rule fadd_not_finite)
  then show "\<not> isfinite (calculate_loss lib s p y)"
    unfolding calculate_loss_def Let_def .
next
  assume "length p = 1"
  then have "\<not> isfinite (cont_loss lib p)" by (rule cont_loss_single_row)
  then have "\<not> isfinite (fmul (cont_loss lib p) (Fin (w_cont_loss (hparams s'))))"
    by (rule fmul_not_finite)
  then have "\<not> isfinite (fadd (base_loss s' p y) (fmul (cont_loss lib p) (Fin (w_cont_loss (hparams s')))))"
    by (rule fadd_not_finite)
  then show "\<not> isfinite (adv_calculate_loss lib s' p y)"
    unfolding adv_calculate_loss_def Let_def .
next
  assume "2 \<le> length p"
  then show "1 \<le> int (length p) - 1" by simp
next
  assume l: "2 \<le> length p"
    and v: "loss s p y = Fin a \<and> torch_norm lib (tsub (from_1 p) (upto_last p)) = Fin b"
  from l have nz: "int (length p) - 1 \<noteq> 0" by simp
  have e: "real_of_int (int (length p) - 1) = real (length p) - 1" by simp
  have "cont_loss lib p = Fin (b / (real (length p) - 1))"
    using v fdiv_nonzero [OF nz, of b] by (simp only: cont_loss_def e)
  with v show "calculate_loss lib s p y = Fin (a + b / (real (length p) - 1) * 0.01)"
    by (simp only: calculate_loss_def Let_def fmul.simps fadd.simps)
next
  assume l: "2 \<le> length p"
    and v: "base_loss s' p y = Fin a \<and> torch_norm lib (tsub (from_1 p) (upto_last p)) = Fin b"
  from l have nz: "int (length p) - 1 \<noteq> 0" by simp
  have e: "real_of_int (int (length p) - 1) = real (length p) - 1" by simp
  have "cont_loss lib p = Fin (b / (real (length p) - 1))"
    using v fdiv_nonzero [OF nz, of b] by (simp only: cont_loss_def e)
  with v show "adv_calculate_loss lib s' p y = Fin (a + b / (real (length p) - 1) * w_cont_loss (hparams s'))"
    by (simp only: adv_calculate_loss_def Let_def fmul.simps fadd.simps)
qed

text \<open>
  The two sample poses give the finite loss \<open>1 + 5 / 1 * 0.01\<close>; the first of them alone
  gives a continuity term \<open>0 / 0\<close> and a loss that is not-a-number.
\<close>

theorem continuity_term_division_witness:
  "2 \<le> length sample_poses \<and>
   1 \<le> int (length sample_poses) - 1 \<and>
   calculate_loss sample_lib
     (Seq2SeqSystem_init sample_lib sample_encoder sample_decoder ''train'' ''test'' 20 10)
     sample_poses sample_targets = Fin 1.05 \<and>
   length [[0, 0 :: real]] = 1 \<and>
   torch_norm sample_lib [] = Fin 0 \<and>
   cont_loss sample_lib [[0, 0]] = NaN \<and>
   \<not> isfinite (calculate_loss sample_lib
     (Seq2SeqSystem_init sample_lib sample_encoder sample_decoder ''train'' ''test'' 20 10)
     [[0, 0]] [[0, 2]])"
proof -
  let ?s = "Seq2SeqSystem_init sample_lib sample_encoder sample_decoder ''train'' ''test'' 20 10"
  let ?s' = "AdversarialSeq2SeqSystem_init sample_lib sample_encoder sample_decoder sample_discriminator
        ''train'' ''test'' 20 10"
  have l: "2 \<le> length sample_poses" "length sample_poses = 2" by (simp_all add: sample_poses_def)
  have sl: "tsub (from_1 sample_poses) (upto_last sample_poses) = [[3, 4]]"
    by (simp add: tsub_def from_1_def upto_last_def sample_poses_def)
  have v: "loss ?s sample_poses sample_targets = Fin 1 \<and>
      torch_norm sample_lib (tsub (from_1 sample_poses) (upto_last sample_poses)) = Fin 5"
    using sample_mse sample_norm by (simp add: Seq2SeqSystem_init_def sl)
  note two = continuity_term_division [of sample_poses sample_lib ?s sample_targets ?s' 1 5,
      THEN conjunct2, THEN conjunct2, rule_format, OF l(1)]
  from two have d: "1 \<le> int (length sample_poses) - 1" by blast
  from two v have "calculate_loss sample_lib ?s sample_poses sample_targets =
      Fin (1 + 5 / (real (length sample_poses) - 1) * 0.01)" by blast
  then have c: "calculate_loss sample_lib ?s sample_poses sample_targets = Fin 1.05"
    by (simp add: l(2))
  have one: "length [[0, 0 :: real]] = 1" by simp
  have z: "torch_norm sample_lib [] = Fin 0" by (simp add: sample_lib_def)
  note single = continuity_term_division [of "[[0, 0]]" sample_lib ?s "[[0, 2]]" ?s' 1 5,
      THEN conjunct2, THEN conjunct1, rule_format, OF one]
  from single z have n: "cont_loss sample_lib [[0, 0]] = NaN" by blast
  from single have f: "\<not> isfinite (calculate_loss sample_lib ?s [[0, 0]] [[0, 2]])" by blast
  from l(1) d c one z n f show ?thesis by blast
qed

lemma one_minus_ones: "one_minus (ones n) = replicate n [0]"
  by (simp add: one_minus_def ones_def)

lemma forward_fresh:
  "call enc x = (output, hidden) \<Longrightarrow>
     forward (AdversarialSeq2SeqSystem_init lib enc dec disc trd ted np nq) x q =
       call dec (output, hidden, q)"
  by (simp add: forward_def AdversarialSeq2SeqSystem_init_def)

text \<open>The dictionary of the generator branch for a freshly constructed system, in terms of the library.\<close>

lemma generator_step_fresh:
  assumes "rectangular q"
  shows "generator_step lib (AdversarialSeq2SeqSystem_init lib enc dec disc trd ted np nq) q r =
    \<lparr>out_loss =
       fadd (fadd (MSELoss lib q r)
               (fmul (Fin 0.01) (fdiv (torch_norm lib (consecutive_differences q)) (int (length q) - 1))))
         (fmul (Fin 0.01) (binary_cross_entropy_with_logits lib (call disc q) (replicate (length q) [1]))),
     progress_bar =
       [(''total_loss'',
         fadd (fadd (MSELoss lib q r)
                 (fmul (Fin 0.01) (fdiv (torch_norm lib (consecutive_differences q)) (int (length q) - 1))))
           (fmul (Fin 0.01) (binary_cross_entropy_with_logits lib (call disc q) (replicate (length q) [1])))),
        (''d_fake_score'', sigmoid_mean lib (call disc q))],
     out_log =
       [(''loss'',
         fadd (fadd (MSELoss lib q r)
                 (fmul (Fin 0.01) (fdiv (torch_norm lib (consecutive_differences q)) (int (length q) - 1))))
           (fmul (Fin 0.01) (binary_cross_entropy_with_logits lib (call disc q) (replicate (length q) [1])))),
        (''g_adv_loss'', binary_cross_entropy_with_logits lib (call disc q) (replicate (length q) [1])),
        (''base_loss'', MSELoss lib q r),
        (''cont_loss'', fdiv (torch_norm lib (consecutive_differences q)) (int (length q) - 1)),
        (''d_fake_score'', sigmoid_mean lib (call disc q))]\<rparr>"
proof -
  let ?s = "AdversarialSeq2SeqSystem_init lib enc dec disc trd ted np nq"
  have f: "discriminator ?s = disc" "base_loss ?s = MSELoss lib"
    "w_cont_loss (hparams ?s) = 0.01" "w_adv_loss (hparams ?s) = 0.01"
    by (simp_all add: AdversarialSeq2SeqSystem_init_def)
  have c: "cont_loss lib q = fdiv (torch_norm lib (consecutive_differences q)) (int (length q) - 1)"
    by (simp add: cont_loss_def slices_consecutive_differences [OF assms])
  show ?thesis
    unfolding generator_step_def Let_def f c ones_def by simp
qed

text \<open>The dictionary of the discriminator branch for a freshly constructed system.\<close>

lemma discriminator_step_fresh:
  "discriminator_step lib (AdversarialSeq2SeqSystem_init lib enc dec disc trd ted np nq) q r =
    \<lparr>out_loss =
       fdiv (fadd (binary_cross_entropy_with_logits lib (call disc r) (replicate (length q) [1]))
                  (binary_cross_entropy_with_logits lib (call disc q) (replicate (length q) [0]))) 2,
     progress_bar =
       [(''d_loss'',
         fdiv (fadd (binary_cross_entropy_with_logits lib (call disc r) (replicate (length q) [1]))
                    (binary_cross_entropy_with_logits lib (call disc q) (replicate (length q) [0]))) 2),
        (''d_fake_score'', sigmoid_mean lib (call disc q)),
        (''d_real_score'', sigmoid_mean lib (call disc r))],
     out_log =
       [(''loss'',
         fdiv (fadd (binary_cross_entropy_with_logits lib (call disc r) (replicate (length q) [1]))
                    (binary_cross_entropy_with_logits lib (call disc q) (replicate (length q) [0]))) 2),
        (''d_real_loss'', binary_cross_entropy_with_logits lib (call disc r) (replicate (length q) [1])),
        (''d_fake_loss'', binary_cross_entropy_with_logits lib (call disc q) (replicate (length q) [0])),
        (''d_fake_score'', sigmoid_mean lib (call disc q)),
        (''d_real_score'', sigmoid_mean lib (call disc r))]\<rparr>"
proof -
  let ?s = "AdversarialSeq2SeqSystem_init lib enc dec disc trd ted np nq"
  have f: "discriminator ?s = disc" by (simp add: AdversarialSeq2SeqSystem_init_def)
  show ?thesis
    unfolding discriminator_step_def Let_def f one_minus_ones by (simp add: ones_def)
qed

lemma adv_training_step_dispatch:
  "adv_training_step lib s (x, r, q) nb 0 = Some (generator_step lib s (forward s x q) r)"
  "adv_training_step lib s (x, r, q) nb 1 = Some (discriminator_step lib s (forward s x q) r)"
  "idx \<noteq> 0 \<Longrightarrow> idx \<noteq> 1 \<Longrightarrow> adv_training_step lib s (x, r, q) nb idx = None"
  by (simp_all add: adv_training_step_def Let_def)

lemma sample_rectangular: "rectangular sample_poses"
  by (simp add: rectangular_def sample_poses_def)

lemma sample_forward:
  "call sample_encoder () = ((), ())" "sample_poses = call sample_decoder ((), (), sample_poses)"
  by (simp_all add: sample_encoder_def sample_decoder_def)

text \<open>
  Claim C4.  \<open>configure_optimizers\<close> of a freshly constructed \<open>AdversarialSeq2SeqSystem\<close>
  returns exactly two optimizers, both Adam with learning rate 0.001 and betas
  \<open>(0.5, 0.9)\<close>: the first over the parameters of the encoder followed by those of the
  decoder, the second over the parameters of the discriminator.  With \<open>pred\<close> the
  prediction that the decoder gives for the output of the encoder, \<open>training_step\<close>
  returns for \<open>optimizer_idx = 0\<close> the dictionary of the generator step: its loss (the
  base loss plus the two weighted terms), the progress bar with \<open>total_loss\<close> and
  \<open>d_fake_score\<close>, and the log with the loss, the adversarial, base and continuity
  losses and the mean score of the discriminator on \<open>pred\<close>.  For \<open>optimizer_idx = 1\<close>
  it returns the dictionary of the discriminator step: the mean of the real and the
  fake loss, with the two losses and the two mean scores of the discriminator.  For any
  other \<open>optimizer_idx\<close> it returns \<open>None\<close>.
\<close>

theorem two_optimizers_alternate:
  assumes "call enc audio_features = (output, hidden)"
    and "pred = call dec (output, hidden, prev)"
    and "rectangular pred"
  shows "adv_configure_optimizers (AdversarialSeq2SeqSystem_init lib enc dec disc trd ted np nq) =
     ([Adam (parameters enc @ parameters dec) 0.001 (0.5, 0.9),
       Adam (parameters disc) 0.001 (0.5, 0.9)], []) \<and>
   set (opt_params (hd (fst (adv_configure_optimizers
          (AdversarialSeq2SeqSystem_init lib enc dec disc trd ted np nq))))) =
     set (parameters enc) \<union> set (parameters dec) \<and>
   adv_training_step lib (AdversarialSeq2SeqSystem_init lib enc dec disc trd ted np nq)
       (audio_features, real_poses, prev) batch_nb 0 =
     Some \<lparr>out_loss =
       fadd (fadd (MSELoss lib pred real_poses)
               (fmul (Fin 0.01) (fdiv (torch_norm lib (consecutive_differences pred)) (int (length pred) - 1))))
         (fmul (Fin 0.01) (binary_cross_entropy_with_logits lib (call disc pred) (replicate (length pred) [1]))),
     progress_bar =
       [(''total_loss'',
         fadd (fadd (MSELoss lib pred real_poses)
                 (fmul (Fin 0.01) (fdiv (torch_norm lib (consecutive_differences pred)) (int (length pred) - 1))))
           (fmul (Fin 0.01) (binary_cross_entropy_with_logits lib (call disc pred) (replicate (length pred) [1])))),
        (''d_fake_score'', sigmoid_mean lib (call disc pred))],
     out_log =
       [(''loss'',
         fadd (fadd (MSELoss lib pred real_poses)
                 (fmul (Fin 0.01) (fdiv (torch_norm lib (consecutive_differences pred)) (int (length pred) - 1))))
           (fmul (Fin 0.01) (binary_cross_entropy_with_logits lib (call disc pred) (replicate (length pred) [1])))),
        (''g_adv_loss'', binary_cross_entropy_with_logits lib (call disc pred) (replicate (length pred) [1])),
        (''base_loss'', MSELoss lib pred real_poses),
        (''cont_loss'', fdiv (torch_norm lib (consecutive_differences pred)) (int (length pred) - 1)),
        (''d_fake_score'', sigmoid_mean lib (call disc pred))]\<rparr> \<and>
   adv_training_step lib (AdversarialSeq2SeqSystem_init lib enc dec disc trd ted np nq)
       (audio_features, real_poses, prev) batch_nb 1 =
     Some \<lparr>out_loss =
       fdiv (fadd (binary_cross_entropy_with_logits lib (call disc real_poses) (replicate (length pred) [1]))
                  (binary_cross_entropy_with_logits lib (call disc pred) (replicate (length pred) [0]))) 2,
     progress_bar =
       [(''d_loss'',
         fdiv (fadd (binary_cross_entropy_with_logits lib (call disc real_poses) (replicate (length pred) [1]))
                    (binary_cross_entropy_with_logits lib (call disc pred) (replicate (length pred) [0]))) 2),
        (''d_fake_score'', sigmoid_mean lib (call disc pred)),
        (''d_real_score'', sigmoid_mean lib (call disc real_poses))],
     out_log =
       [(''loss'',
         fdiv (fadd (binary_cross_entropy_with_logits lib (call disc real_poses) (replicate (length pred) [1]))
                    (binary_cross_entropy_with_logits lib (call disc pred) (replicate (length pred) [0]))) 2),
        (''d_real_loss'', binary_cross_entropy_with_logits lib (call disc real_poses) (replicate (length pred) [1])),
        (''d_fake_loss'', binary_cross_entropy_with_logits lib (call disc pred) (replicate (length pred) [0])),
        (''d_fake_score'', sigmoid_mean lib (call disc pred)),
        (''d_real_score'', sigmoid_mean lib (call disc real_poses))]\<rparr> \<and>
   (optimizer_idx \<noteq> 0 \<and> optimizer_idx \<noteq> 1 \<longrightarrow>
      adv_training_step lib (AdversarialSeq2SeqSystem_init lib enc dec disc trd ted np nq)
        (audio_features, real_poses, prev) batch_nb optimizer_idx = None)"
proof -
  let ?s = "AdversarialSeq2SeqSystem_init lib enc dec disc trd ted np nq"
  have fw: "forward ?s audio_features prev = pred"
    using forward_fresh [OF assms(1)] assms(2) by simp
  have o: "adv_configure_optimizers ?s =
     ([Adam (parameters enc @ parameters dec) 0.001 (0.5, 0.9),
       Adam (parameters disc) 0.001 (0.5, 0.9)], [])"
    by (simp add: adv_configure_optimizers_def AdversarialSeq2SeqSystem_init_def Let_def)
  have p: "set (opt_params (hd (fst (adv_configure_optimizers ?s)))) =
     set (parameters enc) \<union> set (parameters dec)"
    unfolding o by simp
  note g = adv_training_step_dispatch(1) [of lib ?s audio_features real_poses prev batch_nb,
      unfolded fw generator_step_fresh [OF assms(3)]]
  note d = adv_training_step_dispatch(2) [of lib ?s audio_features real_poses prev batch_nb,
      unfolded fw discriminator_step_fresh]
  have n: "optimizer_idx \<noteq> 0 \<and> optimizer_idx \<noteq> 1 \<longrightarrow>
      adv_training_step lib ?s (audio_features, real_poses, prev) batch_nb optimizer_idx = None"
    by (simp add: adv_training_step_dispatch(3))
  from o p g d n show ?thesis by (intro conjI)
qed

text \<open>
  The sample networks: the encoder and decoder have the parameters 0, 1 and 2, the
  discriminator 3 and 4; the decoder returns the two sample poses.
\<close>

theorem two_optimizers_alternate_witness:
  "call sample_encoder () = ((), ()) \<and>
   sample_poses = call sample_decoder ((), (), sample_poses) \<and>
   rectangular sample_poses \<and>
   adv_configure_optimizers
     (AdversarialSeq2SeqSystem_init sample_lib sample_encoder sample_decoder sample_discriminator
        ''train'' ''test'' 20 10) =
     ([Adam [0, 1, 2] 0.001 (0.5, 0.9), Adam [3, 4] 0.001 (0.5, 0.9)], []) \<and>
   map_option (\<lambda>out. map fst (out_log out))
     (adv_training_step sample_lib
        (AdversarialSeq2SeqSystem_init sample_lib sample_encoder sample_decoder sample_discriminator
           ''train'' ''test'' 20 10)
        ((), sample_targets, sample_poses) 0 0) =
     Some [''loss'', ''g_adv_loss'', ''base_loss'', ''cont_loss'', ''d_fake_score''] \<and>
   map_option (\<lambda>out. map fst (out_log out))
     (adv_training_step sample_lib
        (AdversarialSeq2SeqSystem_init sample_lib sample_encoder sample_decoder sample_discriminator
           ''train'' ''test'' 20 10)
        ((), sample_targets, sample_poses) 0 1) =
     Some [''loss'', ''d_real_loss'', ''d_fake_loss'', ''d_fake_score'', ''d_real_score''] \<and>
   adv_training_step sample_lib
     (AdversarialSeq2SeqSystem_init sample_lib sample_encoder sample_decoder sample_discriminator
        ''train'' ''test'' 20 10)
     ((), sample_targets, sample_poses) 0 2 = None"
proof -
  let ?s = "AdversarialSeq2SeqSystem_init sample_lib sample_encoder sample_decoder sample_discriminator
        ''train'' ''test'' 20 10"
  note t = two_optimizers_alternate [OF sample_forward sample_rectangular,
      where lib = sample_lib and disc = sample_discriminator and trd = "''train''" and ted = "''test''"
        and np = 20 and nq = 10 and real_poses = sample_targets and batch_nb = 0 and optimizer_idx = 2]
  have ps: "parameters sample_encoder @ parameters sample_decoder = [0, 1, 2]"
    "parameters sample_discriminator = [3, 4]"
    by (simp_all add: sample_encoder_def sample_decoder_def sample_discriminator_def)
  from t have o: "adv_configure_optimizers ?s =
     ([Adam [0, 1, 2] 0.001 (0.5, 0.9), Adam [3, 4] 0.001 (0.5, 0.9)], [])"
    unfolding ps by (rule conjunct1)
  from t have g: "map_option (\<lambda>out. map fst (out_log out))
     (adv_training_step sample_lib ?s ((), sample_targets, sample_poses) 0 0) =
     Some [''loss'', ''g_adv_loss'', ''base_loss'', ''cont_loss'', ''d_fake_score'']"
    by simp
  from t have d: "map_option (\<lambda>out. map fst (out_log out))
     (adv_training_step sample_lib ?s ((), sample_targets, sample_poses) 0 1) =
     Some [''loss'', ''d_real_loss'', ''d_fake_loss'', ''d_fake_score'', ''d_real_score'']"
    by simp
  from t have n: "adv_training_step sample_lib ?s ((), sample_targets, sample_poses) 0 2 = None"
    by simp
  from sample_forward sample_rectangular o g d n show ?thesis by (intro conjI)
qed

text \<open>
  Claim C5.  For a freshly constructed \<open>AdversarialSeq2SeqSystem\<close>, with \<open>pred\<close> the
  prediction that the decoder gives for the output of the encoder: with
  \<open>optimizer_idx = 0\<close> the loss returned by \<open>training_step\<close> is the base MSE between
  \<open>pred\<close> and \<open>real_poses\<close>, plus 0.01 times the continuity term (the norm of the
  consecutive-row differences of \<open>pred\<close> divided by \<open>pred.size(0) - 1\<close>), plus 0.01 times
  the binary cross-entropy with logits of \<open>discriminator(pred)\<close> against
  \<open>pred.size(0)\<close> rows \<open>[1]\<close>; with \<open>optimizer_idx = 1\<close> it is half the sum of the
  cross-entropy of \<open>discriminator(real_poses)\<close> against those ones and the cross-entropy
  of \<open>discriminator(pred)\<close> against as many rows \<open>[0]\<close>.
\<close>

theorem adversarial_losses:
  assumes "call enc audio_features = (output, hidden)"
    and "pred = call dec (output, hidden, prev)"
    and "rectangular pred"
  shows "map_option out_loss
     (adv_training_step lib (AdversarialSeq2SeqSystem_init lib enc dec disc trd ted np nq)
        (audio_features, real_poses, prev) batch_nb 0) =
   Some (fadd
     (fadd (MSELoss lib pred real_poses)
        (fmul (Fin 0.01)
           (fdiv (torch_norm lib (consecutive_differences pred)) (int (length pred) - 1))))
     (fmul (Fin 0.01)
        (binary_cross_entropy_with_logits lib (call disc pred) (replicate (length pred) [1])))) \<and>
   map_option out_loss
     (adv_training_step lib (AdversarialSeq2SeqSystem_init lib enc dec disc trd ted np nq)
        (audio_features, real_poses, prev) batch_nb 1) =
   Some (fdiv
     (fadd
        (binary_cross_entropy_with_logits lib (call disc real_poses) (replicate (length pred) [1]))
        (binary_cross_entropy_with_logits lib (call disc pred) (replicate (length pred) [0])))
     2)"
proof -
  let ?s = "AdversarialSeq2SeqSystem_init lib enc dec disc trd ted np nq"
  have fw: "forward ?s audio_features prev = pred"
    using forward_fresh [OF assms(1)] assms(2) by simp
  note g = adv_training_step_dispatch(1) [of lib ?s audio_features real_poses prev batch_nb,
      unfolded fw generator_step_fresh [OF assms(3)]]
  note d = adv_training_step_dispatch(2) [of lib ?s audio_features real_poses prev batch_nb,
      unfolded fw discriminator_step_fresh]
  show ?thesis unfolding g d by simp
qed

text \<open>
  The sample poses: base loss 1, continuity term 5, and the discriminator scores
  \<open>[0]\<close> and \<open>[7]\<close> for the prediction, \<open>[2]\<close> and \<open>[7]\<close> for the targets.
\<close>

theorem adversarial_losses_witness:
  "call sample_encoder () = ((), ()) \<and>
   sample_poses = call sample_decoder ((), (), sample_poses) \<and>
   rectangular sample_poses \<and>
   map_option out_loss
     (adv_training_step sample_lib
        (AdversarialSeq2SeqSystem_init sample_lib sample_encoder sample_decoder sample_discriminator
           ''train'' ''test'' 20 10)
        ((), sample_targets, sample_poses) 0 0) =
     Some (fadd (Fin 1.05)
       (fmul (Fin 0.01) (binary_cross_entropy_with_logits sample_lib [[0], [7]] [[1], [1]]))) \<and>
   map_option out_loss
     (adv_training_step sample_lib
        (AdversarialSeq2SeqSystem_init sample_lib sample_encoder sample_decoder sample_discriminator
           ''train'' ''test'' 20 10)
        ((), sample_targets, sample_poses) 0 1) =
     Some (fdiv
       (fadd (binary_cross_entropy_with_logits sample_lib [[2], [7]] [[1], [1]])
             (binary_cross_entropy_with_logits sample_lib [[0], [7]] [[0], [0]])) 2)"
proof -
  let ?s = "AdversarialSeq2SeqSystem_init sample_lib sample_encoder sample_decoder sample_discriminator
        ''train'' ''test'' 20 10"
  note t = adversarial_losses [OF sample_forward sample_rectangular,
      where lib = sample_lib and disc = sample_discriminator and trd = "''train''" and ted = "''test''"
        and np = 20 and nq = 10 and real_poses = sample_targets and batch_nb = 0]
  have n: "torch_norm sample_lib (consecutive_differences sample_poses) = Fin 5"
    by (simp only: sample_poses_differences sample_norm)
  have l: "length sample_poses = 2" by (simp add: sample_poses_def)
  have dp: "call sample_discriminator sample_poses = [[0], [7]]"
    "call sample_discriminator sample_targets = [[2], [7]]"
    by (simp_all add: sample_discriminator_def sample_poses_def sample_targets_def)
  have r: "replicate 2 [1 :: real] = [[1], [1]]" "replicate 2 [0 :: real] = [[0], [0]]"
    by (simp_all add: eval_nat_numeral)
  have a: "fadd (Fin 1) (fmul (Fin 0.01) (fdiv (Fin 5) (int 2 - 1))) = Fin 1.05" by simp
  note x = t [unfolded sample_mse n l dp r a]
  from sample_forward sample_rectangular x show ?thesis by blast
qed

section \<open>Properties of the datasets\<close>

lemma length_torch_empty [simp]: "length (torch_empty env n ds) = n"
  by (simp add: torch_empty_def)

lemma shape_torch_empty [simp]: "i < n \<Longrightarrow> shape (torch_empty env n ds ! i) = ds"
  by (simp add: torch_empty_def)

lemma setitem_same_shape:
  "shape v = shape (dst ! i) \<Longrightarrow> setitem env dst i v = Inr (dst[i := as_float env v])"
  by (simp add: setitem_def as_float_def Let_def)

lemma shape_as_float [simp]: "shape (as_float env v) = shape v"
  by (simp add: as_float_def)

text \<open>A value of shape \<open>(1)\<close> assigned to a slice of shape \<open>(3)\<close> is repeated; one of shape \<open>(2)\<close> is refused.\<close>

lemma setitem_examples:
  "setitem sample_env [Tensor [3] [0, 0, 0]] 0 (Tensor [1] [7]) = Inr [Tensor [3] [7, 7, 7]]"
  "setitem sample_env [Tensor [3] [0, 0, 0]] 0 (Tensor [2] [7, 8]) = Inl RuntimeError"
  by (simp_all add: setitem_def expandable_def sample_env_def Let_def eval_nat_numeral)

text \<open>When every value has the shape of the slice it is assigned to, the loop is a sequence of updates.\<close>

lemma fill_same_shapes:
  assumes "\<forall>i \<in> set idx. i < length inp \<and> i < length out \<and>
             shape (x ! i) = shape (inp ! i) \<and> shape (y ! i) = shape (out ! i)"
  shows "fill env x y idx inp out =
           Inr (foldl (\<lambda>t i. t[i := as_float env (x ! i)]) inp idx,
                foldl (\<lambda>t i. t[i := as_float env (y ! i)]) out idx)"
  using assms
proof (induction idx arbitrary: inp out)
  case Nil
  show ?case by simp
next
  case (Cons i rest)
  let ?inp = "inp[i := as_float env (x ! i)]"
  let ?out = "out[i := as_float env (y ! i)]"
  from Cons.prems have i: "i < length inp" "i < length out"
    "shape (x ! i) = shape (inp ! i)" "shape (y ! i) = shape (out ! i)" by simp_all
  have keep: "\<forall>j \<in> set rest. j < length ?inp \<and> j < length ?out \<and>
             shape (x ! j) = shape (?inp ! j) \<and> shape (y ! j) = shape (?out ! j)"
  proof
    fix j assume "j \<in> set rest"
    with Cons.prems have j: "j < length inp" "j < length out"
      "shape (x ! j) = shape (inp ! j)" "shape (y ! j) = shape (out ! j)" by simp_all
    show "j < length ?inp \<and> j < length ?out \<and>
             shape (x ! j) = shape (?inp ! j) \<and> shape (y ! j) = shape (?out ! j)"
      using i j by (cases "j = i") simp_all
  qed
  show ?case
    using Cons.IH [OF keep] by (simp add: setitem_same_shape i)
qed

lemma foldl_update_nth:
  "j < length t \<Longrightarrow> foldl (\<lambda>t i. t[i := f i]) t idx ! j = (if j \<in> set idx then f j else t ! j)"
  by (induction idx arbitrary: t) (auto simp: nth_list_update)

lemma foldl_update_length [simp]: "length (foldl (\<lambda>t i. t[i := f i]) t idx) = length t"
  by (induction idx arbitrary: t) simp_all

lemma foldl_update_all:
  assumes "length t = length xs"
  shows "foldl (\<lambda>t i. t[i := f (xs ! i)]) t [0 ..< length xs] = map f xs"
proof (rule nth_equalityI)
  show "length (foldl (\<lambda>t i. t[i := f (xs ! i)]) t [0 ..< length xs]) = length (map f xs)"
    using assms by simp
next
  fix j assume "j < length (foldl (\<lambda>t i. t[i := f (xs ! i)]) t [0 ..< length xs])"
  then have j: "j < length xs" "j < length t" using assms by simp_all
  from foldl_update_nth [OF j(2), of "\<lambda>i. f (xs ! i)" "[0 ..< length xs]"] j(1)
  show "foldl (\<lambda>t i. t[i := f (xs ! i)]) t [0 ..< length xs] ! j = map f xs ! j"
    by simp
qed

text \<open>The loop of \<open>collate_fn\<close> on fresh tensors whose slices have the shape of every example.\<close>

lemma fill_torch_empty:
  assumes "length x = n" "length y = n"
    and "\<forall>i < n. shape (x ! i) = dsx \<and> shape (y ! i) = dsy"
  shows "fill env x y [0 ..< n] (torch_empty env n dsx) (torch_empty env n dsy) =
           Inr (map (as_float env) x, map (as_float env) y)"
proof -
  have "\<forall>i \<in> set [0 ..< n]. i < length (torch_empty env n dsx) \<and> i < length (torch_empty env n dsy) \<and>
           shape (x ! i) = shape (torch_empty env n dsx ! i) \<and>
           shape (y ! i) = shape (torch_empty env n dsy ! i)"
    using assms(3) by simp
  from fill_same_shapes [OF this]
  have "fill env x y [0 ..< n] (torch_empty env n dsx) (torch_empty env n dsy) =
          Inr (foldl (\<lambda>t i. t[i := as_float env (x ! i)]) (torch_empty env n dsx) [0 ..< n],
               foldl (\<lambda>t i. t[i := as_float env (y ! i)]) (torch_empty env n dsy) [0 ..< n])" .
  moreover have "foldl (\<lambda>t i. t[i := as_float env (x ! i)]) (torch_empty env n dsx) [0 ..< length x] =
       map (as_float env) x"
    by (rule foldl_update_all) (simp add: assms(1))
  moreover have "foldl (\<lambda>t i. t[i := as_float env (y ! i)]) (torch_empty env n dsy) [0 ..< length y] =
       map (as_float env) y"
    by (rule foldl_update_all) (simp add: assms(2))
  ultimately show ?thesis by (simp add: assms(1,2))
qed

lemma uniform_nth:
  assumes "uniform batch" "i < length batch"
  shows "shape (fst (batch ! i)) = shape (fst (hd batch))" "shape (snd (batch ! i)) = shape (snd (hd batch))"
  using assms by (simp_all add: uniform_def)

lemma shape_rank1: "length (shape t) = 1 \<Longrightarrow> shape t = [shape t ! 0]"
  by (cases "shape t") simp_all

lemma shape_rank2: "length (shape t) = 2 \<Longrightarrow> shape t = [shape t ! 0, shape t ! 1]"
proof -
  assume "length (shape t) = 2"
  then obtain a b where "shape t = [a, b]"
    by (cases "shape t"; cases "tl (shape t)") auto
  then show ?thesis by simp
qed

text \<open>
  Claim C6, as amended.  For every non-empty batch whose examples all have the shapes of
  the first example, one-dimensional inputs and outputs for \<open>MotionDataset\<close> and
  two-dimensional inputs with one-dimensional outputs for \<open>SpeechMotionDataset\<close>,
  \<open>collate_fn\<close> returns a pair of float tensors: each has one slice per example, slice
  \<open>i\<close> has the shape of the examples and holds the entries of example \<open>i\<close>, converted
  to \<open>torch.float\<close>.
\<close>

theorem collate_fn_uniform_batches:
  assumes "batch \<noteq> []" and "uniform batch"
  shows "(length (shape (fst (hd batch))) = 1 \<and> length (shape (snd (hd batch))) = 1 \<longrightarrow>
           MotionDataset_collate_fn env batch =
             Inr (map (as_float env) (map fst batch), map (as_float env) (map snd batch))) \<and>
         (length (shape (fst (hd batch))) = 2 \<and> length (shape (snd (hd batch))) = 1 \<longrightarrow>
           SpeechMotionDataset_collate_fn env batch =
             Inr (map (as_float env) (map fst batch), map (as_float env) (map snd batch)))"
proof (intro conjI impI)
  let ?x = "map fst batch" and ?y = "map snd batch"
  from assms(1) have x0: "?x ! 0 = fst (hd batch)" and y0: "?y ! 0 = snd (hd batch)"
    by (simp_all add: hd_conv_nth)
  {
    assume r: "length (shape (fst (hd batch))) = 1 \<and> length (shape (snd (hd batch))) = 1"
    let ?dx = "shape (fst (hd batch)) ! 0" and ?dy = "shape (snd (hd batch)) ! 0"
    have sx: "shape (fst (hd batch)) = [?dx]" by (rule shape_rank1) (simp add: r)
    have sy: "shape (snd (hd batch)) = [?dy]" by (rule shape_rank1) (simp add: r)
    have sz: "size_at (?x ! 0) 0 = Inr ?dx" "size_at (?y ! 0) 0 = Inr ?dy"
      using r by (simp_all add: size_at_def x0 y0)
    have "\<forall>i < length batch. shape (?x ! i) = [?dx] \<and> shape (?y ! i) = [?dy]"
      using uniform_nth [OF assms(2)] sx sy by simp
    from fill_torch_empty [of ?x "length batch" ?y "[?dx]" "[?dy]" env, OF _ _ this]
    have "fill env ?x ?y [0 ..< length batch] (torch_empty env (length batch) [?dx])
            (torch_empty env (length batch) [?dy]) =
          Inr (map (as_float env) ?x, map (as_float env) ?y)" by simp
    then show "MotionDataset_collate_fn env batch =
             Inr (map (as_float env) (map fst batch), map (as_float env) (map snd batch))"
      by (simp only: MotionDataset_collate_fn_def Let_def assms(1) if_False sz sum.case length_map)
  }
  {
    assume r: "length (shape (fst (hd batch))) = 2 \<and> length (shape (snd (hd batch))) = 1"
    let ?dx0 = "shape (fst (hd batch)) ! 0" and ?dx1 = "shape (fst (hd batch)) ! 1"
      and ?dy = "shape (snd (hd batch)) ! 0"
    have sx: "shape (fst (hd batch)) = [?dx0, ?dx1]" by (rule shape_rank2) (simp add: r)
    have sy: "shape (snd (hd batch)) = [?dy]" by (rule shape_rank1) (simp add: r)
    have sz: "size_at (?x ! 0) 0 = Inr ?dx0" "size_at (?x ! 0) 1 = Inr ?dx1" "size_at (?y ! 0) 0 = Inr ?dy"
      using r by (simp_all add: size_at_def x0 y0)
    have "\<forall>i < length batch. shape (?x ! i) = [?dx0, ?dx1] \<and> shape (?y ! i) = [?dy]"
      using uniform_nth [OF assms(2)] sx sy by simp
    from fill_torch_empty [of ?x "length batch" ?y "[?dx0, ?dx1]" "[?dy]" env, OF _ _ this]
    have "fill env ?x ?y [0 ..< length batch] (torch_empty env (length batch) [?dx0, ?dx1])
            (torch_empty env (length batch) [?dy]) =
          Inr (map (as_float env) ?x, map (as_float env) ?y)" by simp
    then show "SpeechMotionDataset_collate_fn env batch =
             Inr (map (as_float env) (map fst batch), map (as_float env) (map snd batch))"
      by (simp only: SpeechMotionDataset_collate_fn_def Let_def assms(1) if_False sz sum.case length_map)
  }
qed

text \<open>The two sample batches: the slices of the results are the examples.\<close>

theorem collate_fn_uniform_batches_witness:
  "sample_batch \<noteq> [] \<and> uniform sample_batch \<and>
   MotionDataset_collate_fn sample_env sample_batch =
     Inr ([Tensor [2] [1, 2], Tensor [2] [3, 4]], [Tensor [2] [1, 2], Tensor [2] [3, 4]]) \<and>
   sample_speech_batch \<noteq> [] \<and> uniform sample_speech_batch \<and>
   SpeechMotionDataset_collate_fn sample_env sample_speech_batch =
     Inr ([Tensor [2, 2] [1, 2, 3, 4], Tensor [2, 2] [6, 7, 8, 9]], [Tensor [1] [5], Tensor [1] [10]])"
proof -
  have m: "sample_batch \<noteq> []" "uniform sample_batch"
    "length (shape (fst (hd sample_batch))) = 1 \<and> length (shape (snd (hd sample_batch))) = 1"
    by (simp_all add: sample_batch_def uniform_def)
  have s: "sample_speech_batch \<noteq> []" "uniform sample_speech_batch"
    "length (shape (fst (hd sample_speech_batch))) = 2 \<and> length (shape (snd (hd sample_speech_batch))) = 1"
    by (simp_all add: sample_speech_batch_def uniform_def)
  from collate_fn_uniform_batches [OF m(1,2), of sample_env, THEN conjunct1, rule_format, OF m(3)]
  have 1: "MotionDataset_collate_fn sample_env sample_batch =
     Inr ([Tensor [2] [1, 2], Tensor [2] [3, 4]], [Tensor [2] [1, 2], Tensor [2] [3, 4]])"
    by (simp add: sample_batch_def as_float_def sample_env_def)
  from collate_fn_uniform_batches [OF s(1,2), of sample_env, THEN conjunct2, rule_format, OF s(3)]
  have 2: "SpeechMotionDataset_collate_fn sample_env sample_speech_batch =
     Inr ([Tensor [2, 2] [1, 2, 3, 4], Tensor [2, 2] [6, 7, 8, 9]], [Tensor [1] [5], Tensor [1] [10]])"
    by (simp add: sample_speech_batch_def as_float_def sample_env_def)
  from m(1,2) s(1,2) 1 2 show ?thesis by blast
qed

text \<open>
  The claim as first worded fails on a batch whose second example is longer than the
  first: the assignment of the second example raises.
\<close>

theorem collate_fn_uniform_batches_counterexample:
  "ragged_batch \<noteq> [] \<and>
   MotionDataset_collate_fn sample_env ragged_batch = Inl RuntimeError \<and>
   ragged_speech_batch \<noteq> [] \<and>
   SpeechMotionDataset_collate_fn sample_env ragged_speech_batch = Inl RuntimeError"
  by (simp add: ragged_batch_def ragged_speech_batch_def MotionDataset_collate_fn_def
      SpeechMotionDataset_collate_fn_def size_at_def torch_empty_def setitem_def expandable_def
      Let_def upt_rec sample_env_def)

lemma np_index_valid:
  "- int (length a) \<le> item \<Longrightarrow> item < int (length a) \<Longrightarrow>
     np_index a item = Inr (a ! nat (if item < 0 then int (length a) + item else item))"
  by (simp add: np_index_def)

lemma np_index_invalid:
  "item < - int (length a) \<or> int (length a) \<le> item \<Longrightarrow> np_index a item = Inl IndexError"
  by (auto simp: np_index_def)

text \<open>
  Claim C7.  For a dataset as \<open>__init__\<close> builds it and every valid index \<open>item\<close> (from
  \<open>-len(data)\<close> up to \<open>len(data) - 1\<close>), with \<open>x\<close> the frame \<open>data[item]\<close>: when
  \<open>add_noise\<close> is false, \<open>__getitem__\<close> returns the pair \<open>(x, x)\<close> and draws nothing; when
  \<open>add_noise\<close> is true and the draw \<open>np.random.normal(0.0, sigma * variance + 1e-15, len(x))\<close>
  gives \<open>len(x)\<close> samples, it returns \<open>x\<close> plus these samples, entry by entry, paired with
  \<open>x\<close>.
\<close>

theorem getitem_denoising_pair:
  assumes "- int (length d) \<le> item" and "item < int (length d)"
    and "x = d ! nat (if item < 0 then int (length d) + item else item)"
  shows "MotionDataset_getitem normal (MotionDataset_init d dev sg var False) g item =
           (Inr (Tensor [length x] x, Tensor [length x] x), g) \<and>
         (normal g 0 (np_map (\<lambda>s. s * var + 1 / 10 ^ 15) sg) (length x) = (Inr noise, g') \<and>
          length noise = length x \<longrightarrow>
            MotionDataset_getitem normal (MotionDataset_init d dev sg var True) g item =
              (Inr (Tensor [length x] (map2 (\<lambda>u v. u + v) x noise), Tensor [length x] x), g'))"
proof -
  have ix: "np_index d item = Inr x"
    using np_index_valid [OF assms(1,2)] assms(3) by simp
  have 1: "MotionDataset_getitem normal (MotionDataset_init d dev sg var False) g item =
           (Inr (Tensor [length x] x, Tensor [length x] x), g)"
    by (simp add: MotionDataset_getitem_def MotionDataset_init_def ix from_numpy_def)
  have 2: "MotionDataset_getitem normal (MotionDataset_init d dev sg var True) g item =
              (Inr (Tensor [length x] (map2 (\<lambda>u v. u + v) x noise), Tensor [length x] x), g')"
    if "normal g 0 (np_map (\<lambda>s. s * var + 1 / 10 ^ 15) sg) (length x) = (Inr noise, g')"
      and "length noise = length x"
    using that by (simp add: MotionDataset_getitem_def MotionDataset_init_def ix from_numpy_def np_add_def)
  from 1 2 show ?thesis by blast
qed

text \<open>The last frame \<open>(3, 4)\<close> of the sample dataset, clean and with the samples \<open>0.5\<close> added.\<close>

theorem getitem_denoising_pair_witness:
  "- int (length [[1, 2], [3, 4 :: real]]) \<le> - 1 \<and> (- 1 :: int) < int (length [[1, 2], [3, 4 :: real]]) \<and>
   MotionDataset_getitem sample_normal (sample_dataset False) 0 (- 1) =
     (Inr (Tensor [2] [3, 4], Tensor [2] [3, 4]), 0) \<and>
   sample_normal 0 0 (np_map (\<lambda>s. s * 0.01 + 1 / 10 ^ 15) (Scalar 1)) 2 = (Inr [0.5, 0.5], 1) \<and>
   MotionDataset_getitem sample_normal (sample_dataset True) 0 (- 1) =
     (Inr (Tensor [2] [3.5, 4.5], Tensor [2] [3, 4]), 1)"
proof -
  let ?d = "[[1, 2], [3, 4 :: real]]"
  have a: "- int (length ?d) \<le> - 1" "(- 1 :: int) < int (length ?d)" by simp_all
  have x: "[3, 4 :: real] = ?d ! nat (if (- 1 :: int) < 0 then int (length ?d) + - 1 else - 1)"
    by simp
  have n: "sample_normal 0 0 (np_map (\<lambda>s. s * 0.01 + 1 / 10 ^ 15) (Scalar 1)) (length [3, 4 :: real]) =
      (Inr [0.5, 0.5], 1) \<and> length [0.5, 0.5 :: real] = length [3, 4 :: real]"
    by (simp add: sample_normal_def eval_nat_numeral)
  note t = getitem_denoising_pair [OF a x, where normal = sample_normal and dev = "''cpu''"
      and sg = "Scalar 1" and var = "0.01" and g = 0 and noise = "[0.5, 0.5]" and g' = 1]
  from t have 1: "MotionDataset_getitem sample_normal (sample_dataset False) 0 (- 1) =
     (Inr (Tensor [2] [3, 4], Tensor [2] [3, 4]), 0)"
    by (simp add: sample_dataset_def)
  from t n have 2: "MotionDataset_getitem sample_normal (sample_dataset True) 0 (- 1) =
     (Inr (Tensor [2] [3.5, 4.5], Tensor [2] [3, 4]), 1)"
    by (simp add: sample_dataset_def)
  have 3: "sample_normal 0 0 (np_map (\<lambda>s. s * 0.01 + 1 / 10 ^ 15) (Scalar 1)) 2 = (Inr [0.5, 0.5], 1)"
    by (simp add: sample_normal_def eval_nat_numeral)
  from a 1 2 3 show ?thesis by blast
qed


end
